theory Spec2Isabelle
  imports Complex_Main
begin

section \<open>Python values used by MappingApp.py\<close>

text \<open>
  The exceptions that the modelled statements of \<^verbatim>\<open>MappingApp.py\<close> raise at module
  level, where nothing catches them.
\<close>

datatype error = TypeError | ValueError

text \<open>
  Python's \<^verbatim>\<open>str\<close> on an \<^verbatim>\<open>int\<close>: decimal digits, most significant first, no padding,
  a minus sign for negative numbers.
\<close>

definition digit_char :: "nat \<Rightarrow> char" where
  "digit_char d = ''0123456789'' ! d"

fun str_nat :: "nat \<Rightarrow> string" where
  "str_nat n = (if n < 10 then [digit_char n] else str_nat (n div 10) @ [digit_char (n mod 10)])"

declare str_nat.simps [simp del]

definition py_str_int :: "int \<Rightarrow> string" where
  "py_str_int i = (if i < 0 then CHR ''-'' # str_nat (nat (- i)) else str_nat (nat i))"

text \<open>
  Python's \<^verbatim>\<open>int\<close> on a string of decimal digits (the number a padded code denotes).
\<close>

definition isdigit :: "char \<Rightarrow> bool" where
  "isdigit c = (c \<in> set ''0123456789'')"

definition digit_val :: "char \<Rightarrow> nat" where
  "digit_val c = length (takeWhile (\<lambda>x. x \<noteq> c) ''0123456789'')"

definition int_of_digits :: "string \<Rightarrow> nat" where
  "int_of_digits s = foldl (\<lambda>a c. 10 * a + digit_val c) 0 s"

section \<open>Identifier normalisation (lines 94-95 and 128)\<close>

text \<open>
  One row of the Census response, as line 94 names its columns. Every cell of the
  response is a string.
\<close>

record census_row =
  NAME :: string
  population_raw :: string
  state :: string
  county :: string
  tract :: string
  block_group :: string

text \<open>Line 95: \<^verbatim>\<open>df["GEOID"] = df["state"] + df["county"] + df["tract"] + df["block_group"]\<close>.\<close>

definition census_GEOID :: "census_row \<Rightarrow> string" where
  "census_GEOID r = state r @ county r @ tract r @ block_group r"

text \<open>
  A cell of the shapefile's \<^verbatim>\<open>GEOID\<close> column, by the dtype pandas gave the column: a
  string (object), an integer (int64), or a float (float64) holding a whole number.
  Line 128 applies \<^verbatim>\<open>astype(str)\<close> to it: a string is kept, an integer prints its
  digits, and a float prints its digits followed by \<^verbatim>\<open>.0\<close> (whole numbers below
  \<open>10\<^sup>1\<^sup>6\<close>, which covers every twelve-digit key; Python prints larger floats with an
  exponent, which is not modelled).
\<close>

datatype cell = StrCell string | IntCell int | FloatCell int

fun astype_str :: "cell \<Rightarrow> string" where
  "astype_str (StrCell s) = s"
| "astype_str (IntCell i) = py_str_int i"
| "astype_str (FloatCell x) = py_str_int x @ ''.0''"

text \<open>
  The fixed widths of the four codes (state 2, county 3, tract 6, block group 1), all
  decimal digits.
\<close>

definition fixed_width :: "census_row \<Rightarrow> bool" where
  "fixed_width r =
     (length (state r) = 2 \<and> length (county r) = 3 \<and> length (tract r) = 6
      \<and> length (block_group r) = 1
      \<and> list_all isdigit (state r @ county r @ tract r @ block_group r))"

text \<open>
  The spec's "same logical geography". A geography is the four code numbers (state,
  county, tract, block group). A tabular row names them by its four fields. A polygon
  key names a number below \<open>10\<^sup>1\<^sup>2\<close> (a string of digits by its value, a numeric cell by
  itself), whose decimal places split 2-3-6-1 into the four code numbers.
\<close>

definition geo_of_row :: "census_row \<Rightarrow> nat \<times> nat \<times> nat \<times> nat" where
  "geo_of_row r =
     (int_of_digits (state r), int_of_digits (county r), int_of_digits (tract r),
      int_of_digits (block_group r))"

definition geo_of_number :: "nat \<Rightarrow> nat \<times> nat \<times> nat \<times> nat" where
  "geo_of_number n =
     (n div 10000000000, n div 10000000 mod 1000, n div 10 mod 1000000, n mod 10)"

fun key_number :: "cell \<Rightarrow> nat option" where
  "key_number (StrCell s) = (if s \<noteq> [] \<and> list_all isdigit s then Some (int_of_digits s) else None)"
| "key_number (IntCell i) = (if 0 \<le> i then Some (nat i) else None)"
| "key_number (FloatCell x) = (if 0 \<le> x then Some (nat x) else None)"

definition same_geography :: "census_row \<Rightarrow> cell \<Rightarrow> bool" where
  "same_geography r k =
     (case key_number k of
        None \<Rightarrow> False
      | Some n \<Rightarrow> n < 1000000000000 \<and> geo_of_number n = geo_of_row r)"

section \<open>Population density (lines 127-135)\<close>

text \<open>
  A float64 cell: a finite value, an infinity or NaN. Arithmetic on finite values is
  exact here (rounding is not modelled); what the model keeps of IEEE arithmetic is
  that a division by zero raises nothing and gives an infinity or NaN.
\<close>

datatype pyfloat = Fin real | PInf | NInf | NaN

text \<open>
  A row of \<^verbatim>\<open>population_df[["GEOID", "population"]]\<close>; the population is \<open>None\<close> where
  \<^verbatim>\<open>pd.to_numeric(..., errors="coerce")\<close> gave NaN.
\<close>

record pop_row =
  pop_GEOID :: string
  pop_population :: "real option"

text \<open>
  A row of \<^verbatim>\<open>shapes_gdf\<close>. The geometry is kept abstract; the area geopandas computes
  for it after \<^verbatim>\<open>to_crs(epsg=3857)\<close>, in square metres, is a parameter \<open>area\<close> of the
  functions below.
\<close>

record 'g shape_row =
  shape_GEOID :: cell
  shape_geometry :: 'g

text \<open>A row of \<^verbatim>\<open>merged\<close> after line 129, and after lines 131-133.\<close>

record 'g unit_row =
  GEOID :: string
  geometry :: 'g
  population :: "real option"

record 'g density_row = "'g unit_row" +
  area_km2 :: real
  pop_density :: pyfloat

text \<open>
  Lines 128-129: \<^verbatim>\<open>astype(str)\<close> on the key, then the left join on \<^verbatim>\<open>GEOID\<close>: every
  shape row, in order, once per matching population row, and once with a NaN population
  when none matches.
\<close>

definition merge_left :: "'g shape_row list \<Rightarrow> pop_row list \<Rightarrow> 'g unit_row list" where
  "merge_left shapes pops =
     concat (map (\<lambda>s.
       let k = astype_str (shape_GEOID s);
           ms = filter (\<lambda>p. pop_GEOID p = k) pops
       in if ms = []
          then [\<lparr>GEOID = k, geometry = shape_geometry s, population = None\<rparr>]
          else map (\<lambda>p. \<lparr>GEOID = k, geometry = shape_geometry s,
                           population = pop_population p\<rparr>) ms) shapes)"

text \<open>Line 130: \<^verbatim>\<open>merged["population"].notna() & (merged["population"] > 0)\<close>.\<close>

definition populated :: "'g unit_row \<Rightarrow> bool" where
  "populated r = (case population r of None \<Rightarrow> False | Some p \<Rightarrow> 0 < p)"

text \<open>float64 division of two finite values, as numpy does it: no exception.\<close>

definition fdiv :: "real \<Rightarrow> real \<Rightarrow> pyfloat" where
  "fdiv x y =
     (if y = 0 then (if 0 < x then PInf else if x < 0 then NInf else NaN)
      else Fin (x / y))"

text \<open>\<^verbatim>\<open>Series.clip(upper=u)\<close> on one cell: NaN stays NaN.\<close>

fun clip_upper :: "real \<Rightarrow> pyfloat \<Rightarrow> pyfloat" where
  "clip_upper u (Fin x) = Fin (min x u)"
| "clip_upper u PInf = Fin u"
| "clip_upper u NInf = NInf"
| "clip_upper u NaN = NaN"

text \<open>Lines 131-133 on one row.\<close>

definition add_density :: "('g \<Rightarrow> real) \<Rightarrow> 'g unit_row \<Rightarrow> 'g density_row" where
  "add_density area r =
     (let a = area (geometry r) / 1000000;
          d = (case population r of None \<Rightarrow> NaN | Some p \<Rightarrow> fdiv p a)
      in \<lparr>GEOID = GEOID r, geometry = geometry r, population = population r,
          area_km2 = a, pop_density = clip_upper 14000 d\<rparr>)"

text \<open>Lines 127-135: \<^verbatim>\<open>merged\<close>, or \<open>None\<close> when either dataset failed to load.\<close>

definition merged_of ::
  "('g \<Rightarrow> real) \<Rightarrow> pop_row list option \<Rightarrow> 'g shape_row list option
     \<Rightarrow> 'g density_row list option" where
  "merged_of area population_df shapes_gdf =
     (case population_df of
        None \<Rightarrow> None
      | Some pops \<Rightarrow>
          (case shapes_gdf of
             None \<Rightarrow> None
           | Some shapes \<Rightarrow>
               Some (map (add_density area) (filter populated (merge_left shapes pops)))))"

section \<open>Choropleth bins (lines 140-141)\<close>

text \<open>\<^verbatim>\<open>Series.max()\<close>: NaN cells are skipped; NaN when nothing is left.\<close>

fun fmax :: "pyfloat \<Rightarrow> pyfloat \<Rightarrow> pyfloat" where
  "fmax (Fin x) (Fin y) = Fin (max x y)"
| "fmax PInf b = PInf"
| "fmax a PInf = PInf"
| "fmax NInf b = b"
| "fmax a NInf = a"
| "fmax NaN b = b"
| "fmax a NaN = a"

definition series_max :: "pyfloat list \<Rightarrow> pyfloat" where
  "series_max xs =
     (case filter (\<lambda>x. x \<noteq> NaN) xs of [] \<Rightarrow> NaN | y # ys \<Rightarrow> foldl fmax y ys)"

text \<open>
  Line 140: \<^verbatim>\<open>int(mx // 1000 + 1) * 1000\<close>. Floor division of an infinity is NaN, and
  \<^verbatim>\<open>int\<close> of NaN raises ValueError.
\<close>

fun max_pop_density_of :: "pyfloat \<Rightarrow> error + int" where
  "max_pop_density_of (Fin x) = Inr ((\<lfloor>x / 1000\<rfloor> + 1) * 1000)"
| "max_pop_density_of PInf = Inl ValueError"
| "max_pop_density_of NInf = Inl ValueError"
| "max_pop_density_of NaN = Inl ValueError"

text \<open>Python's \<^verbatim>\<open>range(start, stop, step)\<close> as a list; a zero step raises ValueError.\<close>

function range_up :: "int \<Rightarrow> int \<Rightarrow> int \<Rightarrow> int list" where
  "range_up i stop step =
     (if 0 < step \<and> i < stop then i # range_up (i + step) stop step else [])"
  by pat_completeness auto
termination
  by (relation "measure (\<lambda>(i, stop, step). nat (stop - i))") auto

function range_down :: "int \<Rightarrow> int \<Rightarrow> int \<Rightarrow> int list" where
  "range_down i stop step =
     (if step < 0 \<and> stop < i then i # range_down (i + step) stop step else [])"
  by pat_completeness auto
termination
  by (relation "measure (\<lambda>(i, stop, step). nat (i - stop))") auto

declare range_up.simps [simp del] range_down.simps [simp del]

definition py_range :: "int \<Rightarrow> int \<Rightarrow> int \<Rightarrow> error + int list" where
  "py_range start stop step =
     (if step = 0 then Inl ValueError
      else if 0 < step then Inr (range_up start stop step)
      else Inr (range_down start stop step))"

text \<open>Line 141: \<^verbatim>\<open>list(range(0, max_pop_density + 1000, max_pop_density // 10))\<close>.\<close>

definition bins_of :: "int \<Rightarrow> error + int list" where
  "bins_of max_pop_density = py_range 0 (max_pop_density + 1000) (max_pop_density div 10)"

text \<open>Lines 140-141 on the density column.\<close>

definition classify :: "pyfloat list \<Rightarrow> error + int \<times> int list" where
  "classify col =
     (case max_pop_density_of (series_max col) of
        Inl e \<Rightarrow> Inl e
      | Inr mpd \<Rightarrow> (case bins_of mpd of Inl e \<Rightarrow> Inl e | Inr bins \<Rightarrow> Inr (mpd, bins)))"

section \<open>Transit layers (lines 18-45 and 168-223)\<close>

text \<open>
  The keys of \<^verbatim>\<open>GTFS_FEEDS\<close>. \<^verbatim>\<open>selected_modes\<close> comes from a multiselect over
  these keys, so \<^verbatim>\<open>GTFS_FEEDS[mode]\<close> never misses.
\<close>

datatype mode = LocalBus | LightRail | MetroSubway | MARCTrain | CommuterBus

fun mode_label :: "mode \<Rightarrow> string" where
  "mode_label LocalBus = ''Local Bus''"
| "mode_label LightRail = ''Light Rail''"
| "mode_label MetroSubway = ''Metro Subway''"
| "mode_label MARCTrain = ''MARC Train''"
| "mode_label CommuterBus = ''Commuter Bus''"

fun mode_folder :: "mode \<Rightarrow> string" where
  "mode_folder LocalBus = ''bus''"
| "mode_folder LightRail = ''light_rail''"
| "mode_folder MetroSubway = ''metro''"
| "mode_folder MARCTrain = ''marc_train''"
| "mode_folder CommuterBus = ''commuter_bus''"

fun mode_color :: "mode \<Rightarrow> string" where
  "mode_color LocalBus = ''blue''"
| "mode_color LightRail = ''purple''"
| "mode_color MetroSubway = ''red''"
| "mode_color MARCTrain = ''green''"
| "mode_color CommuterBus = ''orange''"

text \<open>
  The columns of the four GTFS tables that \<^verbatim>\<open>plot_gtfs\<close> reads, each cell by its
  text in the file. A blank \<^verbatim>\<open>shape_id\<close> of a trip and a blank \<^verbatim>\<open>route_short_name\<close>
  are NaN (\<open>None\<close>). A point of shapes.txt with a blank \<^verbatim>\<open>shape_id\<close> is matched by no
  trip and is left out. Coordinates and sequence numbers are numbers.
\<close>

record shape_pt =
  shape_id :: string
  shape_pt_lat :: real
  shape_pt_lon :: real
  shape_pt_sequence :: int

record trip =
  trip_route_id :: string
  trip_shape_id :: "string option"

record route =
  route_id :: string
  route_short_name :: "string option"

record stop =
  stop_lat :: real
  stop_lon :: real
  stop_name :: string

text \<open>
  What \<^verbatim>\<open>pd.read_csv\<close> gives for each file of a folder: the table, or the message of
  the exception it raises when the file is missing or unreadable.
\<close>

record gtfs_folder =
  shapes_txt :: "string + shape_pt list"
  trips_txt :: "string + trip list"
  routes_txt :: "string + route list"
  stops_txt :: "string + stop list"

text \<open>Lines 170-173: the four reads in order; the first failure raises.\<close>

definition read_tables ::
  "gtfs_folder \<Rightarrow> string + shape_pt list \<times> trip list \<times> route list \<times> stop list" where
  "read_tables f =
     (case shapes_txt f of Inl e \<Rightarrow> Inl e | Inr shapes \<Rightarrow>
      (case trips_txt f of Inl e \<Rightarrow> Inl e | Inr trips \<Rightarrow>
       (case routes_txt f of Inl e \<Rightarrow> Inl e | Inr routes \<Rightarrow>
        (case stops_txt f of Inl e \<Rightarrow> Inl e | Inr stops \<Rightarrow>
           Inr (shapes, trips, routes, stops)))))"

text \<open>Lines 175-179: the left join of trips and routes on \<^verbatim>\<open>route_id\<close>.\<close>

record trip_route =
  tr_route_id :: string
  tr_shape_id :: "string option"
  tr_route_short_name :: "string option"

definition merge_trips_routes :: "trip list \<Rightarrow> route list \<Rightarrow> trip_route list" where
  "merge_trips_routes trips routes =
     concat (map (\<lambda>t.
       let ms = filter (\<lambda>r. route_id r = trip_route_id t) routes
       in if ms = []
          then [\<lparr>tr_route_id = trip_route_id t, tr_shape_id = trip_shape_id t,
                 tr_route_short_name = None\<rparr>]
          else map (\<lambda>r. \<lparr>tr_route_id = trip_route_id t, tr_shape_id = trip_shape_id t,
                           tr_route_short_name = route_short_name r\<rparr>) ms) trips)"

text \<open>
  The f-strings of lines 199 and 210, kept as their parts: the label and the cell. How
  Python prints the cell depends on the dtype pandas gave its column (a numeric name
  prints as 10 or as 10.0), which is not modelled.
\<close>

datatype fstring = RouteTooltip string "string option" | StopPopup string string

text \<open>
  The folium features, with the keyword arguments \<^verbatim>\<open>plot_gtfs\<close> passes:
  \<open>PolyLine locations color weight opacity tooltip\<close> and
  \<open>CircleMarker location radius color fill fill_opacity popup\<close>.
\<close>

datatype feature =
    PolyLine "(real \<times> real) list" string nat real fstring
  | CircleMarker "real \<times> real" nat string bool real fstring

fun is_line :: "feature \<Rightarrow> bool" where
  "is_line (PolyLine locs c w opac tip) = True"
| "is_line (CircleMarker loc r c f fo pop) = False"

record feature_group =
  fg_name :: string
  fg_show :: bool
  fg_children :: "feature list"

text \<open>
  Lines 191-192: the points of one shape, by sequence number, as (lat, lon) pairs. A
  blank id (NaN) equals no id, so it selects no point.
\<close>

definition coords_of :: "shape_pt list \<Rightarrow> string option \<Rightarrow> (real \<times> real) list" where
  "coords_of shapes sid =
     map (\<lambda>p. (shape_pt_lat p, shape_pt_lon p))
       (sort_key shape_pt_sequence (filter (\<lambda>p. Some (shape_id p) = sid) shapes))"

text \<open>Lines 194-200: the line feature of one row.\<close>

definition line_of :: "shape_pt list \<Rightarrow> string \<Rightarrow> string \<Rightarrow> trip_route \<Rightarrow> feature" where
  "line_of shapes color label row =
     PolyLine (coords_of shapes (tr_shape_id row)) color 2 (7 / 10)
       (RouteTooltip label (tr_route_short_name row))"

text \<open>
  Lines 184-200: the loop over \<^verbatim>\<open>trip_routes.iterrows()\<close>, with its state: the set
  \<^verbatim>\<open>plotted_shapes\<close> and the children of \<^verbatim>\<open>route_group\<close>.

  folium is not part of the repository. Whether its \<^verbatim>\<open>PolyLine\<close> constructor raises on
  a list of locations is the parameter \<open>rejects\<close>: \<open>None\<close> when the list is accepted, the
  message of the exception otherwise; \<open>folium_rejects\<close> below is what folium does. An
  exception leaves the loop and reaches the \<^verbatim>\<open>except\<close> clause of \<^verbatim>\<open>plot_gtfs\<close>. A blank
  id is looked up in \<^verbatim>\<open>plotted_shapes\<close> like any other value; with \<open>folium_rejects\<close> the
  loop ends at the first blank id, so a second one is never looked up.
\<close>

fun plot_routes ::
  "((real \<times> real) list \<Rightarrow> string option) \<Rightarrow> shape_pt list \<Rightarrow> string \<Rightarrow> string
     \<Rightarrow> trip_route list \<Rightarrow> string option set \<times> feature list
     \<Rightarrow> string + string option set \<times> feature list" where
  "plot_routes rejects shapes color label [] st = Inr st"
| "plot_routes rejects shapes color label (row # rows) (plotted_shapes, children) =
     (if tr_shape_id row \<in> plotted_shapes
      then plot_routes rejects shapes color label rows (plotted_shapes, children)
      else (case rejects (coords_of shapes (tr_shape_id row)) of
              Some e \<Rightarrow> Inl e
            | None \<Rightarrow>
                plot_routes rejects shapes color label rows
                  (insert (tr_shape_id row) plotted_shapes,
                   children @ [line_of shapes color label row])))"

text \<open>
  The rows of the loop that get past the \<^verbatim>\<open>continue\<close> of line 188: the first row of
  each shape id not seen before.
\<close>

fun first_rows :: "string option set \<Rightarrow> trip_route list \<Rightarrow> trip_route list" where
  "first_rows seen [] = []"
| "first_rows seen (row # rows) =
     (if tr_shape_id row \<in> seen then first_rows seen rows
      else row # first_rows (insert (tr_shape_id row) seen) rows)"

text \<open>
  What folium's \<^verbatim>\<open>PolyLine\<close> does with its locations when it is constructed: an empty
  list raises ValueError with the message below; a list of coordinate pairs is accepted.
\<close>

definition folium_rejects :: "(real \<times> real) list \<Rightarrow> string option" where
  "folium_rejects locations = (if locations = [] then Some ''Locations is empty.'' else None)"

text \<open>Lines 203-211: the marker of one stop.\<close>

definition marker_of :: "string \<Rightarrow> string \<Rightarrow> stop \<Rightarrow> feature" where
  "marker_of color label s =
     CircleMarker (stop_lat s, stop_lon s) 2 color True (6 / 10)
       (StopPopup label (stop_name s))"

text \<open>
  The map \<^verbatim>\<open>m\<close> (what has been added to it, in order) and the messages \<^verbatim>\<open>st.error\<close>
  has shown.
\<close>

datatype 'g map_child =
    Choropleth string "'g density_row list" "int list"
  | Group feature_group
  | LayerControl

record 'g app =
  map_children :: "'g map_child list"
  st_errors :: "string list"

text \<open>
  Lines 170-215, the body of the \<^verbatim>\<open>try\<close>: the children it adds to the map, or the
  message of the exception that ends it. Nothing is added to the map before line 213.
\<close>

definition try_body ::
  "((real \<times> real) list \<Rightarrow> string option) \<Rightarrow> bool \<Rightarrow> gtfs_folder \<Rightarrow> string \<Rightarrow> string
     \<Rightarrow> string + feature_group list" where
  "try_body rejects show_stops files color label =
     (case read_tables files of
        Inl e \<Rightarrow> Inl e
      | Inr (shapes, trips, routes, stops) \<Rightarrow>
          let trip_routes = merge_trips_routes trips routes in
          (case plot_routes rejects shapes color label trip_routes ({}, []) of
             Inl e \<Rightarrow> Inl e
           | Inr (plotted_shapes, lines) \<Rightarrow>
               let route_group = \<lparr>fg_name = label @ '' Routes'', fg_show = True,
                     fg_children = lines\<rparr>;
                   stop_group = \<lparr>fg_name = label @ '' Stops'', fg_show = show_stops,
                     fg_children =
                       (if show_stops then map (marker_of color label) stops else [])\<rparr>
               in Inr ([route_group] @ (if show_stops then [stop_group] else []))))"

text \<open>
  Lines 168-218: \<^verbatim>\<open>plot_gtfs\<close>. \<open>show_stops\<close> is the global checkbox value and \<open>files\<close>
  is what the four reads of the folder give. The \<^verbatim>\<open>except\<close> clause reports the
  exception with the label and returns.
\<close>

definition plot_gtfs ::
  "((real \<times> real) list \<Rightarrow> string option) \<Rightarrow> bool \<Rightarrow> gtfs_folder \<Rightarrow> string \<Rightarrow> string
     \<Rightarrow> 'g app \<Rightarrow> 'g app" where
  "plot_gtfs rejects show_stops files color label a =
     (case try_body rejects show_stops files color label of
        Inl e \<Rightarrow>
          a\<lparr>st_errors := st_errors a @ [''Failed to load '' @ label @ '' data: '' @ e]\<rparr>
      | Inr groups \<Rightarrow> a\<lparr>map_children := map_children a @ map Group groups\<rparr>)"

text \<open>Lines 221-223: the loop over the selected modes; \<open>fs\<close> maps a folder to its files.\<close>

fun plot_modes ::
  "((real \<times> real) list \<Rightarrow> string option) \<Rightarrow> bool \<Rightarrow> (string \<Rightarrow> gtfs_folder) \<Rightarrow> mode list
     \<Rightarrow> 'g app \<Rightarrow> 'g app" where
  "plot_modes rejects show_stops fs [] a = a"
| "plot_modes rejects show_stops fs (md # mds) a =
     plot_modes rejects show_stops fs mds
       (plot_gtfs rejects show_stops (fs (mode_folder md)) (mode_color md) (mode_label md) a)"

section \<open>The script (lines 127-225)\<close>

text \<open>
  The sidebar's values, the two loaded datasets (\<open>None\<close> when the loader returned
  \<^verbatim>\<open>None\<close>) and the GTFS folders on disk.
\<close>

record 'g inputs =
  selected_modes :: "mode list"
  show_stops :: bool
  show_population :: bool
  population_df :: "pop_row list option"
  shapes_gdf :: "'g shape_row list option"
  gtfs_files :: "string \<Rightarrow> gtfs_folder"

text \<open>
  The module's statements from line 127 to line 225, in order. Line 140 subscripts
  \<^verbatim>\<open>merged\<close> outside any guard: when \<^verbatim>\<open>merged\<close> is \<^verbatim>\<open>None\<close> it raises TypeError, and
  nothing catches an exception at module level; the guard of line 148 comes after it.
  The colormap of lines 142-143 is never added to the map and is left out; the
  \<^verbatim>\<open>Choropleth\<close> of lines 149-162 is recorded with its name, its data and its bins.
\<close>

definition MappingApp ::
  "('g \<Rightarrow> real) \<Rightarrow> ((real \<times> real) list \<Rightarrow> string option) \<Rightarrow> 'g inputs \<Rightarrow> error + 'g app" where
  "MappingApp area rejects inp =
     (let merged = merged_of area (population_df inp) (shapes_gdf inp) in
      case merged of
        None \<Rightarrow> Inl TypeError
      | Some rows \<Rightarrow>
          (case classify (map pop_density rows) of
             Inl e \<Rightarrow> Inl e
           | Inr (max_pop_density, bins) \<Rightarrow>
               let m0 = \<lparr>map_children =
                           (if show_population inp \<and> merged \<noteq> None
                            then [Choropleth ''Population Density'' rows bins] else []),
                         st_errors = []\<rparr>;
                   m1 = plot_modes rejects (show_stops inp) (gtfs_files inp)
                          (selected_modes inp) m0
               in Inr (m1\<lparr>map_children := map_children m1 @ [LayerControl]\<rparr>)))"

section \<open>Projected area (line 131)\<close>

text \<open>
  Modelled from the spec: the reprojection and the planar area behind
  \<^verbatim>\<open>merged.geometry.to_crs(epsg=3857).area\<close>, which geopandas computes outside this
  repository (the source holds only the call). A ring is a list of (longitude,
  latitude) pairs in degrees, a polygon an exterior ring with its holes, a geometry a
  list of polygons (a MultiPolygon). EPSG:3857 is the spherical Mercator projection
  on the radius 6378137 m: the easting is linear in the longitude, the northing
  depends on the latitude alone. The area of a ring is the shoelace sum over its
  edges, the closing edge included. Arithmetic is exact, as everywhere in this theory.
  \<open>area_3857\<close> is what the parameter \<open>area\<close> of \<open>add_density\<close> stands for.
\<close>

type_synonym ring = "(real \<times> real) list"

type_synonym polygon = "ring \<times> ring list"

definition web_mercator :: "real \<times> real \<Rightarrow> real \<times> real" where
  "web_mercator p =
     (6378137 * (fst p * pi / 180), 6378137 * ln (tan (pi / 4 + snd p * pi / 360)))"

definition cross :: "real \<times> real \<Rightarrow> real \<times> real \<Rightarrow> real" where
  "cross p q = fst p * snd q - fst q * snd p"

fun shoelace :: "real \<times> real \<Rightarrow> (real \<times> real) list \<Rightarrow> real" where
  "shoelace p0 [] = 0"
| "shoelace p0 [p] = cross p p0"
| "shoelace p0 (p # q # ps) = cross p q + shoelace p0 (q # ps)"

definition ring_area :: "(real \<times> real) list \<Rightarrow> real" where
  "ring_area ps = (case ps of [] \<Rightarrow> 0 | p # qs \<Rightarrow> \<bar>shoelace p ps\<bar> / 2)"

definition polygon_area :: "polygon \<Rightarrow> real" where
  "polygon_area pg =
     ring_area (map web_mercator (fst pg))
       - sum_list (map (\<lambda>hole. ring_area (map web_mercator hole)) (snd pg))"

definition area_3857 :: "polygon list \<Rightarrow> real" where
  "area_3857 g = sum_list (map polygon_area g)"

text \<open>The same shape moved by \<open>d\<close> degrees of longitude.\<close>

definition shift_lon :: "real \<Rightarrow> real \<times> real \<Rightarrow> real \<times> real" where
  "shift_lon d p = (fst p + d, snd p)"

definition shift_polygon :: "real \<Rightarrow> polygon \<Rightarrow> polygon" where
  "shift_polygon d pg = (map (shift_lon d) (fst pg), map (map (shift_lon d)) (snd pg))"

definition shift_geometry :: "real \<Rightarrow> polygon list \<Rightarrow> polygon list" where
  "shift_geometry d g = map (shift_polygon d) g"

section \<open>Sample inputs\<close>

text \<open>
  A folder whose four files are readable: two trips share the path s1, a third trip
  references the path s2, which has no points in shapes.txt, on a route r2 that
  routes.txt does not list.
\<close>

definition sample_folder :: gtfs_folder where
  "sample_folder =
     \<lparr>shapes_txt = Inr [\<lparr>shape_id = ''s1'', shape_pt_lat = 39, shape_pt_lon = - 76,
                         shape_pt_sequence = 2\<rparr>,
                        \<lparr>shape_id = ''s1'', shape_pt_lat = 38, shape_pt_lon = - 77,
                         shape_pt_sequence = 1\<rparr>],
      trips_txt = Inr [\<lparr>trip_route_id = ''r1'', trip_shape_id = Some ''s1''\<rparr>,
                       \<lparr>trip_route_id = ''r1'', trip_shape_id = Some ''s1''\<rparr>,
                       \<lparr>trip_route_id = ''r2'', trip_shape_id = Some ''s2''\<rparr>],
      routes_txt = Inr [\<lparr>route_id = ''r1'', route_short_name = Some ''M''\<rparr>],
      stops_txt = Inr [\<lparr>stop_lat = 39, stop_lon = - 76, stop_name = ''Charles Center''\<rparr>]\<rparr>"

text \<open>
  A folder in which every trip references a path that has points: two trips share the
  path s1, a third uses the path s2.
\<close>

definition complete_folder :: gtfs_folder where
  "complete_folder =
     \<lparr>shapes_txt = Inr [\<lparr>shape_id = ''s1'', shape_pt_lat = 39, shape_pt_lon = - 76,
                         shape_pt_sequence = 2\<rparr>,
                        \<lparr>shape_id = ''s2'', shape_pt_lat = 40, shape_pt_lon = - 75,
                         shape_pt_sequence = 1\<rparr>,
                        \<lparr>shape_id = ''s1'', shape_pt_lat = 38, shape_pt_lon = - 77,
                         shape_pt_sequence = 1\<rparr>],
      trips_txt = Inr [\<lparr>trip_route_id = ''r1'', trip_shape_id = Some ''s1''\<rparr>,
                       \<lparr>trip_route_id = ''r1'', trip_shape_id = Some ''s1''\<rparr>,
                       \<lparr>trip_route_id = ''r2'', trip_shape_id = Some ''s2''\<rparr>],
      routes_txt = Inr [\<lparr>route_id = ''r1'', route_short_name = Some ''M''\<rparr>],
      stops_txt = Inr [\<lparr>stop_lat = 39, stop_lon = - 76, stop_name = ''Charles Center''\<rparr>]\<rparr>"

text \<open>A folder without shapes.txt.\<close>

definition broken_folder :: gtfs_folder where
  "broken_folder =
     \<lparr>shapes_txt = Inl ''No such file or directory: shapes.txt'',
      trips_txt = Inr [], routes_txt = Inr [], stops_txt = Inr []\<rparr>"

text \<open>A disk on which only the metro folder is broken.\<close>

definition sample_disk :: "string \<Rightarrow> gtfs_folder" where
  "sample_disk folder = (if folder = ''metro'' then broken_folder else sample_folder)"

text \<open>The empty map, before any layer is added.\<close>

definition empty_app :: "unit app" where
  "empty_app = \<lparr>map_children = [], st_errors = []\<rparr>"

section \<open>Decimal rendering inverts reading\<close>

lemma digit_char_digit_val: "isdigit c \<Longrightarrow> digit_char (digit_val c) = c"
  by (auto simp: isdigit_def digit_char_def digit_val_def)

lemma digit_val_less: "isdigit c \<Longrightarrow> digit_val c < 10"
  by (auto simp: isdigit_def digit_val_def)

lemma digit_val_pos: "isdigit c \<Longrightarrow> c \<noteq> CHR ''0'' \<Longrightarrow> 0 < digit_val c"
  by (auto simp: isdigit_def digit_val_def)

lemma int_of_digits_snoc: "int_of_digits (s @ [c]) = 10 * int_of_digits s + digit_val c"
  by (simp add: int_of_digits_def)

lemma foldl_digits_ge: "a \<le> foldl (\<lambda>a c. 10 * a + digit_val c) a s"
proof (induction s arbitrary: a)
  case Nil
  show ?case by simp
next
  case (Cons c s)
  have "a \<le> 10 * a + digit_val c" by simp
  also have "\<dots> \<le> foldl (\<lambda>a c. 10 * a + digit_val c) (10 * a + digit_val c) s"
    by (rule Cons.IH)
  finally show ?case by simp
qed

lemma int_of_digits_pos:
  assumes "s \<noteq> []" and "isdigit (hd s)" and "hd s \<noteq> CHR ''0''"
  shows "0 < int_of_digits s"
proof -
  from assms(1) obtain c t where s: "s = c # t" by (cases s) auto
  with assms have "0 < digit_val c" by (simp add: digit_val_pos)
  also have "digit_val c \<le> foldl (\<lambda>a c. 10 * a + digit_val c) (digit_val c) t"
    by (rule foldl_digits_ge)
  finally show ?thesis by (simp add: s int_of_digits_def)
qed

lemma str_nat_int_of_digits:
  "s \<noteq> [] \<Longrightarrow> list_all isdigit s \<Longrightarrow> hd s \<noteq> CHR ''0'' \<Longrightarrow> str_nat (int_of_digits s) = s"
proof (induction s rule: rev_induct)
  case Nil
  then show ?case by simp
next
  case (snoc c s)
  from snoc.prems have dc: "isdigit c" by simp
  show ?case
  proof (cases "s = []")
    case True
    have "str_nat (digit_val c) = [digit_char (digit_val c)]"
      using digit_val_less [OF dc] by (simp add: str_nat.simps)
    with True dc show ?thesis
      by (simp add: int_of_digits_def digit_char_digit_val)
  next
    case False
    with snoc.prems have ds: "list_all isdigit s" and hs: "hd s \<noteq> CHR ''0''"
      by simp_all
    from False ds have dh: "isdigit (hd s)" by (cases s) simp_all
    have pos: "0 < int_of_digits s" using False dh hs by (rule int_of_digits_pos)
    let ?n = "10 * int_of_digits s + digit_val c"
    have big: "\<not> ?n < 10" using pos by simp
    have d: "?n div 10 = int_of_digits s" using digit_val_less [OF dc] by simp
    have m: "?n mod 10 = digit_val c" using digit_val_less [OF dc] by simp
    have "str_nat ?n = str_nat (?n div 10) @ [digit_char (?n mod 10)]"
      using big by (subst str_nat.simps) simp
    also have "\<dots> = str_nat (int_of_digits s) @ [c]"
      using dc by (simp only: d m digit_char_digit_val)
    also have "\<dots> = s @ [c]"
      using snoc.IH [OF False ds hs] by simp
    finally show ?thesis by (simp add: int_of_digits_snoc)
  qed
qed

section \<open>Keys and the numbers they denote\<close>

lemma int_of_digits_append:
  "int_of_digits (a @ b) = int_of_digits a * 10 ^ length b + int_of_digits b"
proof (induction b rule: rev_induct)
  case Nil
  show ?case by (simp add: int_of_digits_def)
next
  case (snoc c b)
  have "int_of_digits (a @ b @ [c]) = 10 * int_of_digits (a @ b) + digit_val c"
    using int_of_digits_snoc [of "a @ b" c] by simp
  also have "\<dots> = int_of_digits a * 10 ^ length (b @ [c]) + (10 * int_of_digits b + digit_val c)"
    by (simp add: snoc.IH algebra_simps)
  finally show ?case by (simp add: int_of_digits_snoc)
qed

lemma number_split:
  fixes n :: nat
  shows "n = (n div 10000000000) * 10000000000 + (n div 10000000 mod 1000) * 10000000
           + (n div 10 mod 1000000) * 10 + n mod 10"
proof -
  have a: "n = (n div 10) * 10 + n mod 10" by simp
  have "n div 10 div 1000000 = n div 10000000" by (simp add: div_mult2_eq [symmetric])
  then have b: "n div 10 = (n div 10000000) * 1000000 + n div 10 mod 1000000"
    using div_mult_mod_eq [of "n div 10" 1000000] by simp
  have "n div 10000000 div 1000 = n div 10000000000" by (simp add: div_mult2_eq [symmetric])
  then have c: "n div 10000000 = (n div 10000000000) * 1000 + n div 10000000 mod 1000"
    using div_mult_mod_eq [of "n div 10000000" 1000] by simp
  have "(n div 10) * 10
      = (n div 10000000000) * 10000000000 + (n div 10000000 mod 1000) * 10000000
        + (n div 10 mod 1000000) * 10"
    by (subst b, subst c) (simp add: algebra_simps)
  with a show ?thesis by linarith
qed

lemma key_value:
  assumes "fixed_width r"
  shows "int_of_digits (census_GEOID r)
           = int_of_digits (state r) * 10000000000 + int_of_digits (county r) * 10000000
             + int_of_digits (tract r) * 10 + int_of_digits (block_group r)"
proof -
  from assms have l: "length (county r) = 3" "length (tract r) = 6" "length (block_group r) = 1"
    by (simp_all add: fixed_width_def)
  show ?thesis
    by (simp add: census_GEOID_def int_of_digits_append l algebra_simps)
qed

lemma same_number:
  assumes "fixed_width r" and "geo_of_number n = geo_of_row r"
  shows "n = int_of_digits (census_GEOID r)"
proof -
  from assms(2) have "n div 10000000000 = int_of_digits (state r)"
    and "n div 10000000 mod 1000 = int_of_digits (county r)"
    and "n div 10 mod 1000000 = int_of_digits (tract r)"
    and "n mod 10 = int_of_digits (block_group r)"
    by (simp_all add: geo_of_number_def geo_of_row_def)
  with number_split [of n] key_value [OF assms(1)] show ?thesis by simp
qed

lemma digit_val_inj: "isdigit c \<Longrightarrow> isdigit d \<Longrightarrow> digit_val c = digit_val d \<Longrightarrow> c = d"
  by (metis digit_char_digit_val)

lemma digits_inj:
  "list_all isdigit s \<Longrightarrow> list_all isdigit t \<Longrightarrow> length s = length t \<Longrightarrow>
   int_of_digits s = int_of_digits t \<Longrightarrow> s = t"
proof (induction s arbitrary: t rule: rev_induct)
  case Nil
  then show ?case by simp
next
  case (snoc c s)
  from snoc.prems(3) obtain t' d where t: "t = t' @ [d]"
    by (cases t rule: rev_cases) auto
  from snoc.prems(1) have dc: "isdigit c" and ds: "list_all isdigit s" by simp_all
  from snoc.prems(2) t have dd: "isdigit d" and dt: "list_all isdigit t'" by simp_all
  from snoc.prems(4) t
  have eq: "10 * int_of_digits s + digit_val c = 10 * int_of_digits t' + digit_val d"
    by (simp add: int_of_digits_snoc)
  have lc: "digit_val c < 10" and ld: "digit_val d < 10"
    using dc dd by (simp_all add: digit_val_less)
  from eq lc ld have v: "int_of_digits s = int_of_digits t'" and "digit_val c = digit_val d"
    by arith+
  then have "c = d" using dc dd by (simp add: digit_val_inj)
  moreover have "s = t'" using snoc.IH [OF ds dt _ v] snoc.prems(3) t by simp
  ultimately show ?case by (simp add: t)
qed

lemma str_nat_nonempty: "str_nat n \<noteq> []"
  by (subst str_nat.simps) simp

section \<open>Facts about the density rows\<close>

lemma clip_upper_fdiv_bounds:
  assumes "0 < p" and "0 \<le> a"
  shows "\<exists>d. clip_upper 14000 (fdiv p a) = Fin d \<and> 0 \<le> d \<and> d \<le> 14000"
proof (cases "a = 0")
  case True
  with assms show ?thesis by (simp add: fdiv_def)
next
  case False
  with assms have "0 \<le> p / a" by simp
  with False show ?thesis by (simp add: fdiv_def)
qed

lemma add_density_fields:
  "population (add_density area u) = population u"
  "GEOID (add_density area u) = GEOID u"
  "geometry (add_density area u) = geometry u"
  "area_km2 (add_density area u) = area (geometry u) / 1000000"
  by (simp_all add: add_density_def Let_def)

lemma pop_density_add_density:
  "population u = Some p \<Longrightarrow>
   pop_density (add_density area u) = clip_upper 14000 (fdiv p (area (geometry u) / 1000000))"
  by (simp add: add_density_def Let_def)

lemma merged_of_rows:
  "merged_of area (Some pops) (Some shapes) =
     Some (map (add_density area) (filter populated (merge_left shapes pops)))"
  by (simp add: merged_of_def)

lemma merged_of_Some_iff:
  "merged_of area pdf gdf = Some rows \<longleftrightarrow>
   (\<exists>pops shapes. pdf = Some pops \<and> gdf = Some shapes \<and>
      rows = map (add_density area) (filter populated (merge_left shapes pops)))"
  by (auto simp: merged_of_def split: option.splits)

lemma merge_left_match:
  assumes "s \<in> set shapes" and "p \<in> set pops" and "pop_GEOID p = astype_str (shape_GEOID s)"
  shows "\<lparr>GEOID = astype_str (shape_GEOID s), geometry = shape_geometry s,
          population = pop_population p\<rparr> \<in> set (merge_left shapes pops)"
  using assms by (auto simp: merge_left_def Let_def filter_empty_conv)

section \<open>Facts about the bins\<close>

lemma range_up_eq:
  "0 < step \<Longrightarrow>
   range_up i stop step = map (\<lambda>k. i + int k * step) [0..<nat ((stop - i + step - 1) div step)]"
proof (induction i stop step rule: range_up.induct)
  case (1 i stop step)
  note pos = \<open>0 < step\<close>
  show ?case
  proof (cases "i < stop")
    case True
    let ?m = "nat ((stop - (i + step) + step - 1) div step)"
    have e1: "stop - i + step - 1 = (stop - i - 1) + step" by simp
    have e2: "stop - (i + step) + step - 1 = stop - i - 1" by simp
    have "((stop - i - 1) + step) div step = (stop - i - 1) div step + 1"
      using pos by simp
    then have d: "(stop - i + step - 1) div step = (stop - i - 1) div step + 1"
      by (simp only: e1)
    have "0 \<le> (stop - i - 1) div step"
      using True pos by (simp add: pos_imp_zdiv_nonneg_iff)
    with d have "nat ((stop - i + step - 1) div step) = Suc (nat ((stop - i - 1) div step))"
      by simp
    then have n: "nat ((stop - i + step - 1) div step) = Suc ?m"
      by (simp only: e2)
    have "range_up i stop step = i # range_up (i + step) stop step"
      using True pos by (subst range_up.simps) simp
    also have "range_up (i + step) stop step = map (\<lambda>k. i + step + int k * step) [0..<?m]"
      using "1.IH" True pos by simp
    also have "i # map (\<lambda>k. i + step + int k * step) [0..<?m]
        = map (\<lambda>k. i + int k * step) [0..<Suc ?m]"
      by (simp add: map_upt_Suc algebra_simps del: upt_Suc)
    finally show ?thesis by (simp only: n)
  next
    case False
    then have "stop - i + step - 1 < step" by simp
    then have "(stop - i + step - 1) div step \<le> 0"
      using pos by (metis div_pos_pos_trivial nle_le pos_imp_zdiv_nonneg_iff)
    moreover have "range_up i stop step = []"
      using False by (subst range_up.simps) simp
    ultimately show ?thesis by simp
  qed
qed

lemma bins_of_eq:
  assumes "0 < w"
  shows "bins_of (10 * w) = Inr (map (\<lambda>k. int k * w) [0..<nat (11 + 999 div w)])"
proof -
  have "(10 * w + 1000 - 0 + w - 1) = 11 * w + 999" by simp
  moreover have "(11 * w + 999) div w = 11 + 999 div w"
    using assms by simp
  ultimately have "(10 * w + 1000 - 0 + w - 1) div w = 11 + 999 div w"
    by (simp only:)
  with assms show ?thesis
    by (simp add: bins_of_def py_range_def range_up_eq)
qed

lemma thousand_above:
  fixes x :: real and q :: int
  assumes "x / 1000 < real_of_int q + 1"
  shows "x < real_of_int ((q + 1) * 1000)"
  using assms by simp

lemma thousand_near:
  fixes x :: real and q :: int
  assumes "real_of_int q \<le> x / 1000"
  shows "real_of_int ((q + 1) * 1000) \<le> x + 1000"
  using assms by simp

lemma max_pop_density_bounds:
  fixes x :: real
  shows "x < real_of_int ((\<lfloor>x / 1000\<rfloor> + 1) * 1000)"
    and "real_of_int ((\<lfloor>x / 1000\<rfloor> + 1) * 1000) \<le> x + 1000"
proof -
  have "x / 1000 < real_of_int \<lfloor>x / 1000\<rfloor> + 1" by linarith
  then show "x < real_of_int ((\<lfloor>x / 1000\<rfloor> + 1) * 1000)" by (rule thousand_above)
  have "real_of_int \<lfloor>x / 1000\<rfloor> \<le> x / 1000" by linarith
  then show "real_of_int ((\<lfloor>x / 1000\<rfloor> + 1) * 1000) \<le> x + 1000" by (rule thousand_near)
qed

lemma width_pos: "0 \<le> (q::int) \<Longrightarrow> 0 < (q + 1) * 100"
  by simp

lemma width_big: "10000 \<le> (q + 1) * 1000 \<Longrightarrow> 999 < (q + 1) * (100::int)"
  by simp

section \<open>Facts about the projected area\<close>

lemma shoelace_shift_east:
  "ps \<noteq> [] \<Longrightarrow>
   shoelace (fst p0 + c, snd p0) (map (\<lambda>p. (fst p + c, snd p)) ps)
     = shoelace p0 ps + c * (snd p0 - snd (hd ps))"
proof (induction p0 ps rule: shoelace.induct)
  case (1 p0)
  then show ?case by simp
next
  case (2 p0 p)
  show ?case by (simp add: cross_def algebra_simps)
next
  case (3 p0 p q ps)
  then have "shoelace (fst p0 + c, snd p0) (map (\<lambda>p. (fst p + c, snd p)) (q # ps))
      = shoelace p0 (q # ps) + c * (snd p0 - snd q)"
    by simp
  then show ?case by (simp add: cross_def algebra_simps)
qed

lemma ring_area_shift_east: "ring_area (map (\<lambda>p. (fst p + c, snd p)) ps) = ring_area ps"
proof (cases ps)
  case Nil
  then show ?thesis by (simp add: ring_area_def)
next
  case (Cons p qs)
  have "shoelace (fst p + c, snd p) (map (\<lambda>p. (fst p + c, snd p)) (p # qs))
      = shoelace p (p # qs) + c * (snd p - snd (hd (p # qs)))"
    by (rule shoelace_shift_east) simp
  with Cons show ?thesis by (simp add: ring_area_def)
qed

lemma web_mercator_shift_lon:
  "web_mercator (shift_lon d p)
     = (fst (web_mercator p) + 6378137 * (d * pi / 180), snd (web_mercator p))"
  by (simp add: web_mercator_def shift_lon_def algebra_simps)

lemma ring_area_shift_lon:
  "ring_area (map web_mercator (map (shift_lon d) ps)) = ring_area (map web_mercator ps)"
proof -
  have "map web_mercator (map (shift_lon d) ps)
      = map (\<lambda>p. (fst p + 6378137 * (d * pi / 180), snd p)) (map web_mercator ps)"
    by (simp add: web_mercator_shift_lon)
  then show ?thesis by (simp only: ring_area_shift_east)
qed

lemma ring_area_shift_lon_fused:
  "ring_area (map (\<lambda>p. web_mercator (shift_lon d p)) ps) = ring_area (map web_mercator ps)"
  using ring_area_shift_lon [of d ps] by (simp add: comp_def)

lemma polygon_area_shift: "polygon_area (shift_polygon d pg) = polygon_area pg"
  by (simp add: polygon_area_def shift_polygon_def ring_area_shift_lon_fused comp_def)

lemma area_3857_shift: "area_3857 (shift_geometry d g) = area_3857 g"
  by (simp add: area_3857_def shift_geometry_def polygon_area_shift comp_def)

section \<open>Facts about the route loop\<close>

lemma first_rows_ids: "tr_shape_id ` set (first_rows seen rows) = tr_shape_id ` set rows - seen"
  by (induction rows arbitrary: seen) auto

lemma first_rows_distinct: "distinct (map tr_shape_id (first_rows seen rows))"
proof (induction rows arbitrary: seen)
  case Nil
  show ?case by simp
next
  case (Cons row rows)
  have "tr_shape_id row \<notin> tr_shape_id ` set (first_rows (insert (tr_shape_id row) seen) rows)"
    by (simp add: first_rows_ids)
  with Cons.IH show ?case by simp
qed

lemma length_first_rows: "length (first_rows {} rows) = card (tr_shape_id ` set rows)"
proof -
  have "card (set (map tr_shape_id (first_rows {} rows))) = length (map tr_shape_id (first_rows {} rows))"
    using first_rows_distinct by (rule distinct_card)
  then show ?thesis by (simp add: first_rows_ids)
qed

lemma plot_routes_accepted:
  assumes "\<forall>r \<in> set rows. rejects (coords_of shapes (tr_shape_id r)) = None"
  shows "plot_routes rejects shapes color label rows (seen, ch) =
           Inr (seen \<union> tr_shape_id ` set rows,
                ch @ map (line_of shapes color label) (first_rows seen rows))"
  using assms by (induction rows arbitrary: seen ch) auto

lemma plot_routes_rejected:
  assumes "r \<in> set rows" and "tr_shape_id r \<notin> seen"
    and "rejects (coords_of shapes (tr_shape_id r)) \<noteq> None"
  shows "\<exists>e. plot_routes rejects shapes color label rows (seen, ch) = Inl e"
  using assms
proof (induction rows arbitrary: seen ch)
  case Nil
  then show ?case by simp
next
  case (Cons row rows)
  show ?case
  proof (cases "tr_shape_id row \<in> seen")
    case True
    with Cons.prems have "r \<in> set rows" by auto
    with Cons.IH [of seen ch] Cons.prems True show ?thesis by simp
  next
    case False
    show ?thesis
    proof (cases "rejects (coords_of shapes (tr_shape_id row))")
      case (Some e)
      with False show ?thesis by simp
    next
      case None
      with Cons.prems have ne: "tr_shape_id r \<noteq> tr_shape_id row" by auto
      with Cons.prems have "r \<in> set rows" by auto
      moreover from ne Cons.prems have "tr_shape_id r \<notin> insert (tr_shape_id row) seen" by simp
      ultimately obtain e where
        "plot_routes rejects shapes color label rows
           (insert (tr_shape_id row) seen, ch @ [line_of shapes color label row]) = Inl e"
        using Cons.IH Cons.prems(3) by blast
      with False None show ?thesis by simp
    qed
  qed
qed

lemma merge_trips_routes_single:
  "tr_shape_id ` set (merge_trips_routes [t] routes) = {trip_shape_id t}"
proof (cases "filter (\<lambda>r. route_id r = trip_route_id t) routes = []")
  case True
  then show ?thesis by (simp add: merge_trips_routes_def)
next
  case False
  then have "set (filter (\<lambda>r. route_id r = trip_route_id t) routes) \<noteq> {}"
    by (simp only: set_empty not_False_eq_True)
  then have "(\<lambda>r. trip_shape_id t) ` set (filter (\<lambda>r. route_id r = trip_route_id t) routes)
      = {trip_shape_id t}"
    by (simp only: image_constant_conv if_False)
  with False show ?thesis
    by (simp add: merge_trips_routes_def image_image del: set_filter)
qed

lemma merge_trips_routes_Cons:
  "merge_trips_routes (t # ts) routes
     = merge_trips_routes [t] routes @ merge_trips_routes ts routes"
  by (simp add: merge_trips_routes_def)

lemma merge_trips_routes_ids:
  "tr_shape_id ` set (merge_trips_routes trips routes) = trip_shape_id ` set trips"
proof (induction trips)
  case Nil
  show ?case by (simp add: merge_trips_routes_def)
next
  case (Cons t ts)
  have "tr_shape_id ` set (merge_trips_routes (t # ts) routes)
      = tr_shape_id ` set (merge_trips_routes [t] routes @ merge_trips_routes ts routes)"
    by (subst merge_trips_routes_Cons) (rule refl)
  also have "\<dots> = {trip_shape_id t} \<union> trip_shape_id ` set ts"
    by (simp only: set_append image_Un merge_trips_routes_single Cons.IH)
  finally show ?case by simp
qed

lemma sort_key_Nil_iff: "sort_key f xs = [] \<longleftrightarrow> xs = []"
proof
  assume "sort_key f xs = []"
  then have "length (sort_key f xs) = 0" by simp
  then show "xs = []" by (simp only: length_sort length_0_conv)
next
  assume "xs = []"
  then show "sort_key f xs = []" by simp
qed

lemma coords_of_empty_iff:
  "coords_of shapes sid = [] \<longleftrightarrow> (\<forall>p \<in> set shapes. Some (shape_id p) \<noteq> sid)"
  by (simp add: coords_of_def sort_key_Nil_iff filter_empty_conv)

lemma folium_rejects_coords:
  "folium_rejects (coords_of shapes sid) = None \<longleftrightarrow> (\<exists>p \<in> set shapes. Some (shape_id p) = sid)"
  by (auto simp: folium_rejects_def coords_of_empty_iff)

lemma folium_rejects_Nil: "folium_rejects [] = Some ''Locations is empty.''"
  by (simp add: folium_rejects_def)

lemma folium_rejects_nonempty: "locs \<noteq> [] \<Longrightarrow> folium_rejects locs = None"
  by (simp add: folium_rejects_def)

lemma plot_routes_folium_error:
  "plot_routes folium_rejects shapes color label rows (seen, ch) = Inl e
   \<Longrightarrow> e = ''Locations is empty.''"
proof (induction rows arbitrary: seen ch)
  case Nil
  then show ?case by simp
next
  case (Cons row rows)
  show ?case
  proof (cases "tr_shape_id row \<in> seen")
    case True
    with Cons.prems have "plot_routes folium_rejects shapes color label rows (seen, ch) = Inl e"
      by simp
    then show ?thesis by (rule Cons.IH)
  next
    case False
    show ?thesis
    proof (cases "coords_of shapes (tr_shape_id row) = []")
      case True
      with False Cons.prems show ?thesis by (simp add: folium_rejects_Nil)
    next
      case nonempty: False
      with False Cons.prems
      have "plot_routes folium_rejects shapes color label rows
              (insert (tr_shape_id row) seen, ch @ [line_of shapes color label row]) = Inl e"
        by (simp add: folium_rejects_nonempty)
      then show ?thesis by (rule Cons.IH)
    qed
  qed
qed

lemma line_of_is_line: "list_all is_line (map (line_of shapes color label) rows)"
  by (simp add: list_all_iff line_of_def)

lemma marker_of_not_line: "list_all (\<lambda>f. \<not> is_line f) (map (marker_of color label) stops)"
  by (simp add: list_all_iff marker_of_def)

lemma try_body_accepted:
  assumes "read_tables files = Inr (shapes, trips, routes, stops)"
    and "\<forall>sid \<in> trip_shape_id ` set trips. rejects (coords_of shapes sid) = None"
  shows "try_body rejects ss files color label =
     Inr (\<lparr>fg_name = label @ '' Routes'', fg_show = True,
           fg_children = map (line_of shapes color label)
                           (first_rows {} (merge_trips_routes trips routes))\<rparr>
          # (if ss then [\<lparr>fg_name = label @ '' Stops'', fg_show = True,
                          fg_children = map (marker_of color label) stops\<rparr>] else []))"
proof -
  have "\<forall>r \<in> set (merge_trips_routes trips routes).
          rejects (coords_of shapes (tr_shape_id r)) = None"
    using assms(2) merge_trips_routes_ids [of trips routes] by blast
  then have "plot_routes rejects shapes color label (merge_trips_routes trips routes) ({}, [])
      = Inr ({} \<union> tr_shape_id ` set (merge_trips_routes trips routes),
             [] @ map (line_of shapes color label)
                    (first_rows {} (merge_trips_routes trips routes)))"
    by (rule plot_routes_accepted)
  with assms(1) show ?thesis by (simp add: try_body_def)
qed

lemma read_tables_unreadable:
  assumes "isl (shapes_txt f) \<or> isl (trips_txt f) \<or> isl (routes_txt f) \<or> isl (stops_txt f)"
  shows "\<exists>e. read_tables f = Inl e"
  using assms by (auto simp: read_tables_def isl_def split: sum.splits)

lemma try_body_unreadable:
  assumes "isl (shapes_txt f) \<or> isl (trips_txt f) \<or> isl (routes_txt f) \<or> isl (stops_txt f)"
  shows "\<exists>e. try_body rejects ss f color label = Inl e"
proof -
  from read_tables_unreadable [OF assms] obtain e where "read_tables f = Inl e" ..
  then show ?thesis by (simp add: try_body_def)
qed

text \<open>
  When folium refuses the locations of a referenced path (an empty list, say), the
  exception ends the whole mode: nothing of it is added to the map.
\<close>

lemma plot_gtfs_rejected:
  assumes "read_tables files = Inr (shapes, trips, routes, stops)"
    and "sid \<in> trip_shape_id ` set trips" and "rejects (coords_of shapes sid) \<noteq> None"
  shows "\<exists>e. plot_gtfs rejects ss files color label a =
           a\<lparr>st_errors := st_errors a @ [''Failed to load '' @ label @ '' data: '' @ e]\<rparr>"
proof -
  from assms(2) have "sid \<in> tr_shape_id ` set (merge_trips_routes trips routes)"
    by (simp only: merge_trips_routes_ids)
  then obtain r where r: "r \<in> set (merge_trips_routes trips routes)"
    and sid: "tr_shape_id r = sid"
    by auto
  have "\<exists>e. plot_routes rejects shapes color label (merge_trips_routes trips routes) ({}, [])
           = Inl e"
    using r assms(3) sid by (intro plot_routes_rejected [of r]) simp_all
  with assms(1) show ?thesis by (auto simp: plot_gtfs_def try_body_def)
qed

lemma lines_cover:
  assumes "sid \<in> trip_shape_id ` set trips"
  shows "\<exists>tip. PolyLine (coords_of shapes sid) color 2 (7 / 10) tip
           \<in> set (map (line_of shapes color label)
                  (first_rows {} (merge_trips_routes trips routes)))"
proof -
  have "tr_shape_id ` set (first_rows {} (merge_trips_routes trips routes))
      = trip_shape_id ` set trips"
    by (simp add: first_rows_ids merge_trips_routes_ids)
  with assms have "sid \<in> tr_shape_id ` set (first_rows {} (merge_trips_routes trips routes))"
    by (simp only:)
  then obtain row where row: "row \<in> set (first_rows {} (merge_trips_routes trips routes))"
    and sid: "tr_shape_id row = sid"
    by auto
  have "line_of shapes color label row
      = PolyLine (coords_of shapes sid) color 2 (7 / 10)
          (RouteTooltip label (tr_route_short_name row))"
    by (simp add: line_of_def sid)
  with row show ?thesis by (metis image_eqI set_map)
qed

lemma try_body_folium:
  assumes "read_tables files = Inr (shapes, trips, routes, stops)"
    and "\<forall>t \<in> set trips. \<exists>p \<in> set shapes. Some (shape_id p) = trip_shape_id t"
  shows "try_body folium_rejects ss files color label =
     Inr (\<lparr>fg_name = label @ '' Routes'', fg_show = True,
           fg_children = map (line_of shapes color label)
                           (first_rows {} (merge_trips_routes trips routes))\<rparr>
          # (if ss then [\<lparr>fg_name = label @ '' Stops'', fg_show = True,
                          fg_children = map (marker_of color label) stops\<rparr>] else []))"
proof -
  have "\<forall>sid \<in> trip_shape_id ` set trips. folium_rejects (coords_of shapes sid) = None"
    using assms(2) by (auto simp: folium_rejects_coords)
  with assms(1) show ?thesis by (rule try_body_accepted)
qed

lemma plot_gtfs_folium_missing:
  assumes "read_tables files = Inr (shapes, trips, routes, stops)"
    and "sid \<in> trip_shape_id ` set trips"
    and "\<forall>p \<in> set shapes. Some (shape_id p) \<noteq> sid"
  shows "plot_gtfs folium_rejects ss files color label a =
           a\<lparr>st_errors := st_errors a
               @ [''Failed to load '' @ label @ '' data: '' @ ''Locations is empty.'']\<rparr>"
proof -
  from assms(2) have "sid \<in> tr_shape_id ` set (merge_trips_routes trips routes)"
    by (simp only: merge_trips_routes_ids)
  then obtain r where r: "r \<in> set (merge_trips_routes trips routes)"
    and sid: "tr_shape_id r = sid"
    by auto
  from assms(3) have "folium_rejects (coords_of shapes sid) \<noteq> None"
    by (simp add: folium_rejects_coords)
  then have "\<exists>e. plot_routes folium_rejects shapes color label
                 (merge_trips_routes trips routes) ({}, []) = Inl e"
    using r sid by (intro plot_routes_rejected [of r]) simp_all
  then obtain e where e: "plot_routes folium_rejects shapes color label
                 (merge_trips_routes trips routes) ({}, []) = Inl e"
    by blast
  then have "e = ''Locations is empty.''" by (rule plot_routes_folium_error)
  with e assms(1) show ?thesis by (simp add: plot_gtfs_def try_body_def)
qed

section \<open>Facts about the loop over the modes\<close>

lemma plot_modes_append:
  "plot_modes rejects ss fs (ms1 @ ms2) a
     = plot_modes rejects ss fs ms2 (plot_modes rejects ss fs ms1 a)"
  by (induction ms1 arbitrary: a) simp_all

lemma plot_gtfs_frame:
  "\<exists>ls es. \<forall>a::'g app. plot_gtfs rejects ss f color label a
       = a\<lparr>map_children := map_children a @ ls, st_errors := st_errors a @ es\<rparr>"
proof (cases "try_body rejects ss f color label")
  case (Inl e)
  then have "\<forall>a::'g app. plot_gtfs rejects ss f color label a
       = a\<lparr>map_children := map_children a @ [],
           st_errors := st_errors a @ [''Failed to load '' @ label @ '' data: '' @ e]\<rparr>"
    by (simp add: plot_gtfs_def)
  then show ?thesis by blast
next
  case (Inr gs)
  then have "\<forall>a::'g app. plot_gtfs rejects ss f color label a
       = a\<lparr>map_children := map_children a @ map Group gs, st_errors := st_errors a @ []\<rparr>"
    by (simp add: plot_gtfs_def)
  then show ?thesis by blast
qed

lemma plot_modes_frame:
  "\<exists>ls es. \<forall>a::'g app. plot_modes rejects ss fs ms a
       = a\<lparr>map_children := map_children a @ ls, st_errors := st_errors a @ es\<rparr>"
proof (induction ms)
  case Nil
  have "\<forall>a::'g app. plot_modes rejects ss fs [] a
       = a\<lparr>map_children := map_children a @ [], st_errors := st_errors a @ []\<rparr>"
    by simp
  then show ?case by blast
next
  case (Cons md ms)
  from Cons.IH obtain ls es where
    t: "\<And>a::'g app. plot_modes rejects ss fs ms a
       = a\<lparr>map_children := map_children a @ ls, st_errors := st_errors a @ es\<rparr>"
    by blast
  from plot_gtfs_frame [where 'g = 'g] obtain ls0 es0 where
    h: "\<And>a::'g app. plot_gtfs rejects ss (fs (mode_folder md)) (mode_color md) (mode_label md) a
       = a\<lparr>map_children := map_children a @ ls0, st_errors := st_errors a @ es0\<rparr>"
    by blast
  have "\<forall>a::'g app. plot_modes rejects ss fs (md # ms) a
       = a\<lparr>map_children := map_children a @ (ls0 @ ls), st_errors := st_errors a @ (es0 @ es)\<rparr>"
    by (simp add: t h)
  then show ?case by blast
qed

section \<open>Claims\<close>

text \<open>
  C1 (as amended). For a Census row whose four codes are digit strings of the fixed
  widths and a polygon key that names the same geography, \<^verbatim>\<open>astype(str)\<close> of the polygon
  key equals the concatenated key of the row when the polygon key is a string of twelve
  characters, and when it is an integer and the state code does not start with the
  digit 0 (as for Maryland, state 24). When the polygon key is a float the two keys are
  never equal: \<^verbatim>\<open>astype(str)\<close> ends it with \<^verbatim>\<open>.0\<close>.
\<close>

theorem C1_normalize_agree:
  assumes "fixed_width r" and "same_geography r k"
  shows "(\<forall>s. k = StrCell s \<longrightarrow> length s = 12 \<longrightarrow> astype_str k = census_GEOID r)
       \<and> (\<forall>i. k = IntCell i \<longrightarrow> hd (state r) \<noteq> CHR ''0'' \<longrightarrow> astype_str k = census_GEOID r)
       \<and> (\<forall>x. k = FloatCell x \<longrightarrow> astype_str k \<noteq> census_GEOID r)"
proof (intro conjI allI impI)
  fix s
  assume k: "k = StrCell s" and len: "length s = 12"
  from assms(2) k have ds: "list_all isdigit s"
    and g: "geo_of_number (int_of_digits s) = geo_of_row r"
    by (auto simp: same_geography_def split: if_splits)
  from assms(1) g have "int_of_digits s = int_of_digits (census_GEOID r)"
    by (rule same_number)
  moreover from assms(1) have "list_all isdigit (census_GEOID r)" "length (census_GEOID r) = 12"
    by (simp_all add: fixed_width_def census_GEOID_def)
  ultimately have "s = census_GEOID r"
    using ds len by (intro digits_inj) simp_all
  with k show "astype_str k = census_GEOID r" by simp
next
  fix i
  assume k: "k = IntCell i" and nz: "hd (state r) \<noteq> CHR ''0''"
  from assms(2) k have i: "0 \<le> i" and g: "geo_of_number (nat i) = geo_of_row r"
    by (auto simp: same_geography_def split: if_splits)
  from assms(1) g have n: "nat i = int_of_digits (census_GEOID r)"
    by (rule same_number)
  from assms(1) have st: "state r \<noteq> []" and dig: "list_all isdigit (census_GEOID r)"
    by (auto simp: fixed_width_def census_GEOID_def)
  from st have ne: "census_GEOID r \<noteq> []" and h: "hd (census_GEOID r) = hd (state r)"
    by (simp_all add: census_GEOID_def)
  from nz h have "hd (census_GEOID r) \<noteq> CHR ''0''" by simp
  with ne dig have "str_nat (int_of_digits (census_GEOID r)) = census_GEOID r"
    by (rule str_nat_int_of_digits)
  with k i n show "astype_str k = census_GEOID r" by (simp add: py_str_int_def)
next
  fix x
  assume k: "k = FloatCell x"
  have dot: "CHR ''.'' \<in> set (astype_str (FloatCell x))" by simp
  have nd: "\<not> isdigit CHR ''.''" by (simp add: isdigit_def)
  from assms(1) have "list_all isdigit (census_GEOID r)"
    by (simp add: fixed_width_def census_GEOID_def)
  with nd have "CHR ''.'' \<notin> set (census_GEOID r)"
    by (auto simp: list_all_iff)
  with dot have "astype_str (FloatCell x) \<noteq> census_GEOID r"
    by metis
  with k show "astype_str k \<noteq> census_GEOID r" by simp
qed

theorem C1_normalize_agree_witness:
  "fixed_width \<lparr>NAME = ''BG 1'', population_raw = ''100'', state = ''24'', county = ''001'',
       tract = ''000100'', block_group = ''1''\<rparr>
   \<and> same_geography \<lparr>NAME = ''BG 1'', population_raw = ''100'', state = ''24'', county = ''001'',
       tract = ''000100'', block_group = ''1''\<rparr> (StrCell ''240010001001'')
   \<and> astype_str (StrCell ''240010001001'') = census_GEOID \<lparr>NAME = ''BG 1'', population_raw = ''100'', state = ''24'', county = ''001'',
       tract = ''000100'', block_group = ''1''\<rparr>
   \<and> same_geography \<lparr>NAME = ''BG 1'', population_raw = ''100'', state = ''24'', county = ''001'',
       tract = ''000100'', block_group = ''1''\<rparr> (IntCell 240010001001)
   \<and> astype_str (IntCell 240010001001) = census_GEOID \<lparr>NAME = ''BG 1'', population_raw = ''100'', state = ''24'', county = ''001'',
       tract = ''000100'', block_group = ''1''\<rparr>
   \<and> same_geography \<lparr>NAME = ''BG 1'', population_raw = ''100'', state = ''24'', county = ''001'',
       tract = ''000100'', block_group = ''1''\<rparr> (FloatCell 240010001001)
   \<and> astype_str (FloatCell 240010001001) \<noteq> census_GEOID \<lparr>NAME = ''BG 1'', population_raw = ''100'', state = ''24'', county = ''001'',
       tract = ''000100'', block_group = ''1''\<rparr>"
proof -
  let ?r = "\<lparr>NAME = ''BG 1'', population_raw = ''100'', state = ''24'', county = ''001'',
       tract = ''000100'', block_group = ''1''\<rparr>"
  have fw: "fixed_width ?r" by (simp add: fixed_width_def isdigit_def)
  have gr: "geo_of_row ?r = (24, 1, 100, 1)"
    by (simp add: geo_of_row_def int_of_digits_def digit_val_def)
  have gn: "geo_of_number 240010001001 = (24, 1, 100, 1)"
    by (simp add: geo_of_number_def)
  have v: "int_of_digits ''240010001001'' = 240010001001"
    by (simp add: int_of_digits_def digit_val_def)
  have s1: "same_geography ?r (StrCell ''240010001001'')"
    by (simp add: same_geography_def isdigit_def v gn gr)
  have s2: "same_geography ?r (IntCell 240010001001)"
    by (simp add: same_geography_def gn gr)
  have s3: "same_geography ?r (FloatCell 240010001001)"
    by (simp add: same_geography_def gn gr)
  have a1: "astype_str (StrCell ''240010001001'') = census_GEOID ?r"
    using C1_normalize_agree [OF fw s1] by simp
  have a2: "astype_str (IntCell 240010001001) = census_GEOID ?r"
    using C1_normalize_agree [OF fw s2] by simp
  have a3: "astype_str (FloatCell 240010001001) \<noteq> census_GEOID ?r"
    using C1_normalize_agree [OF fw s3] by simp
  from fw s1 a1 s2 a2 s3 a3 show ?thesis by blast
qed

text \<open>
  C1 as stated fails for Maryland itself when the polygon key column is float64: the
  block group 24-001-000100-1 has the tabular key 240010001001, and the polygon key
  240010001001.0 becomes the fourteen characters 240010001001.0.
\<close>

theorem C1_counterexample:
  "fixed_width \<lparr>NAME = ''BG 1'', population_raw = ''100'', state = ''24'', county = ''001'',
       tract = ''000100'', block_group = ''1''\<rparr>
   \<and> same_geography \<lparr>NAME = ''BG 1'', population_raw = ''100'', state = ''24'', county = ''001'',
       tract = ''000100'', block_group = ''1''\<rparr> (FloatCell 240010001001)
   \<and> astype_str (FloatCell 240010001001) = ''240010001001.0''
   \<and> census_GEOID \<lparr>NAME = ''BG 1'', population_raw = ''100'', state = ''24'', county = ''001'',
       tract = ''000100'', block_group = ''1''\<rparr> = ''240010001001''
   \<and> astype_str (FloatCell 240010001001) \<noteq> census_GEOID \<lparr>NAME = ''BG 1'', population_raw = ''100'', state = ''24'', county = ''001'',
       tract = ''000100'', block_group = ''1''\<rparr>"
  by (simp add: fixed_width_def isdigit_def same_geography_def geo_of_number_def geo_of_row_def
      int_of_digits_def digit_val_def py_str_int_def str_nat.simps digit_char_def
      census_GEOID_def)

text \<open>
  C5. When both datasets are loaded and the projected area of a geometry is never
  negative, every row kept in \<^verbatim>\<open>merged\<close> has a present, strictly positive population and
  a finite density between 0 and the clip bound 14000; the rows are exactly the joined
  rows that pass the population filter of line 130, which runs before the density is
  computed.
\<close>

theorem C5_density_bounds:
  assumes "merged_of area pdf gdf = Some rows"
    and "r \<in> set rows"
    and "\<And>g. 0 \<le> area g"
  shows "\<exists>p d. population r = Some p \<and> 0 < p \<and> pop_density r = Fin d \<and> 0 \<le> d \<and> d \<le> 14000"
proof -
  from assms(1) obtain pops shapes where
    rows: "rows = map (add_density area) (filter populated (merge_left shapes pops))"
    by (auto simp: merged_of_Some_iff)
  with assms(2) obtain u where u: "populated u" and r: "r = add_density area u"
    by auto
  from u obtain p where p: "population u = Some p" and pos: "0 < p"
    by (auto simp: populated_def split: option.splits)
  have "0 \<le> area (geometry u) / 1000000" using assms(3) [of "geometry u"] by simp
  with pos obtain d where
    "clip_upper 14000 (fdiv p (area (geometry u) / 1000000)) = Fin d" "0 \<le> d" "d \<le> 14000"
    using clip_upper_fdiv_bounds by blast
  with p pos r show ?thesis
    by (simp add: pop_density_add_density add_density_fields)
qed

theorem C5_density_bounds_witness:
  "merged_of real
     (Some [\<lparr>pop_GEOID = ''240010001001'', pop_population = Some 100\<rparr>,
            \<lparr>pop_GEOID = ''240010001002'', pop_population = None\<rparr>])
     (Some [\<lparr>shape_GEOID = StrCell ''240010001001'', shape_geometry = 1000000\<rparr>,
            \<lparr>shape_GEOID = StrCell ''240010001002'', shape_geometry = 2000000\<rparr>])
   = Some [\<lparr>GEOID = ''240010001001'', geometry = 1000000, population = Some 100,
            area_km2 = 1, pop_density = Fin 100\<rparr>]
   \<and> (\<exists>p d. population \<lparr>GEOID = ''240010001001'', geometry = 1000000::nat,
                 population = Some 100, area_km2 = 1, pop_density = Fin 100\<rparr> = Some p
        \<and> 0 < p
        \<and> pop_density \<lparr>GEOID = ''240010001001'', geometry = 1000000::nat,
                 population = Some 100, area_km2 = 1, pop_density = Fin 100\<rparr> = Fin d
        \<and> 0 \<le> d \<and> d \<le> 14000)"
proof -
  let ?pops = "Some [\<lparr>pop_GEOID = ''240010001001'', pop_population = Some 100\<rparr>,
            \<lparr>pop_GEOID = ''240010001002'', pop_population = None\<rparr>]"
  let ?shapes = "Some [\<lparr>shape_GEOID = StrCell ''240010001001'', shape_geometry = 1000000::nat\<rparr>,
            \<lparr>shape_GEOID = StrCell ''240010001002'', shape_geometry = 2000000\<rparr>]"
  let ?r = "\<lparr>GEOID = ''240010001001'', geometry = 1000000::nat, population = Some 100,
            area_km2 = 1, pop_density = Fin 100\<rparr>"
  have m: "merged_of real ?pops ?shapes = Some [?r]"
    by (simp add: merged_of_def merge_left_def populated_def add_density_def fdiv_def)
  have mem: "?r \<in> set [?r]" by simp
  have nn: "\<And>g::nat. 0 \<le> real g" by simp
  from C5_density_bounds [OF m mem nn] m show ?thesis by simp
qed

text \<open>
  C3 (as amended). A zero area excludes nothing: a polygon of zero projected area whose
  key matches a population row with a present, positive count is kept in \<^verbatim>\<open>merged\<close>, with
  \<^verbatim>\<open>area_km2\<close> 0 and the density 14000 (the division gives an infinity, which the clip
  replaces by the bound). The division raises nothing.
\<close>

theorem C3_zero_area_kept:
  assumes "s \<in> set shapes" and "area (shape_geometry s) = 0"
    and "p \<in> set pops" and "pop_GEOID p = astype_str (shape_GEOID s)"
    and "pop_population p = Some n" and "0 < n"
  shows "\<exists>rows. merged_of area (Some pops) (Some shapes) = Some rows
           \<and> \<lparr>GEOID = astype_str (shape_GEOID s), geometry = shape_geometry s,
               population = Some n, area_km2 = 0, pop_density = Fin 14000\<rparr> \<in> set rows"
proof -
  let ?u = "\<lparr>GEOID = astype_str (shape_GEOID s), geometry = shape_geometry s,
             population = pop_population p\<rparr>"
  have "?u \<in> set (merge_left shapes pops)"
    using assms(1,3,4) by (rule merge_left_match)
  moreover have "populated ?u" using assms(5,6) by (simp add: populated_def)
  ultimately have "add_density area ?u
      \<in> set (map (add_density area) (filter populated (merge_left shapes pops)))"
    by simp
  moreover have "add_density area ?u =
      \<lparr>GEOID = astype_str (shape_GEOID s), geometry = shape_geometry s,
       population = Some n, area_km2 = 0, pop_density = Fin 14000\<rparr>"
    using assms(2,5,6) by (simp add: add_density_def fdiv_def)
  ultimately show ?thesis by (simp add: merged_of_rows)
qed

theorem C3_zero_area_kept_witness:
  "\<exists>rows. merged_of real
       (Some [\<lparr>pop_GEOID = ''240010001001'', pop_population = Some 5\<rparr>])
       (Some [\<lparr>shape_GEOID = IntCell 240010001001, shape_geometry = 0\<rparr>]) = Some rows
     \<and> \<lparr>GEOID = ''240010001001'', geometry = 0, population = Some 5,
         area_km2 = 0, pop_density = Fin 14000\<rparr> \<in> set rows"
proof -
  let ?p = "\<lparr>pop_GEOID = ''240010001001'', pop_population = Some (5::real)\<rparr>"
  let ?s = "\<lparr>shape_GEOID = IntCell 240010001001, shape_geometry = 0::nat\<rparr>"
  have k: "astype_str (shape_GEOID ?s) = ''240010001001''"
    by (simp add: py_str_int_def str_nat.simps digit_char_def)
  have h1: "?s \<in> set [?s]" by simp
  have h2: "real (shape_geometry ?s) = 0" by simp
  have h3: "?p \<in> set [?p]" by simp
  have h4: "pop_GEOID ?p = astype_str (shape_GEOID ?s)" using k by simp
  have h5: "pop_population ?p = Some 5" by simp
  have h6: "(0::real) < 5" by simp
  from C3_zero_area_kept [where area = real, OF h1 h2 h3 h4 h5 h6] k show ?thesis by simp
qed

text \<open>
  C3 as stated fails: the block group 240010001001 with population 5 and a geometry of
  zero area stays in the density layer, with a zero area and the placeholder density
  14000.
\<close>

theorem C3_counterexample:
  "merged_of real
     (Some [\<lparr>pop_GEOID = ''240010001001'', pop_population = Some 5\<rparr>])
     (Some [\<lparr>shape_GEOID = StrCell ''240010001001'', shape_geometry = 0\<rparr>])
   = Some [\<lparr>GEOID = ''240010001001'', geometry = 0, population = Some 5,
            area_km2 = 0, pop_density = Fin 14000\<rparr>]"
  by (simp add: merged_of_def merge_left_def populated_def add_density_def fdiv_def)

text \<open>
  C2 (as amended). For a density column whose maximum is a finite \<open>x \<ge> 0\<close>, line 140
  gives the least multiple of 1000 strictly above \<open>x\<close> (a maximum that is itself a
  multiple of 1000, such as the clip value 14000, goes to the next thousand), and line
  141 gives equally spaced edges \<open>0, w, 2w, ...\<close> with \<open>w\<close> a tenth of that number; the
  first eleven edges cut the interval from 0 to the rounded maximum into 10 bins of
  width \<open>w\<close>, and they are all the edges when the rounded maximum is at least 10000.
\<close>

theorem C2_bins:
  assumes "series_max col = Fin x" and "0 \<le> x"
  shows "\<exists>M bins. classify col = Inr (M, bins)
           \<and> M = (\<lfloor>x / 1000\<rfloor> + 1) * 1000
           \<and> x < real_of_int M \<and> real_of_int M \<le> x + 1000
           \<and> 10 * (M div 10) = M
           \<and> bins = map (\<lambda>k. int k * (M div 10)) [0..<length bins]
           \<and> 11 \<le> length bins \<and> bins ! 10 = M
           \<and> (10000 \<le> M \<longrightarrow> length bins = 11)"
proof -
  let ?q = "\<lfloor>x / 1000\<rfloor>"
  let ?w = "(?q + 1) * 100"
  let ?M = "(?q + 1) * 1000"
  let ?n = "nat (11 + 999 div ?w)"
  let ?bins = "map (\<lambda>k. int k * ?w) [0..<?n]"
  from assms(2) have q: "0 \<le> ?q" by simp
  then have w: "0 < ?w" by (rule width_pos)
  have Mw: "?M = 10 * ?w" by simp
  have div: "?M div 10 = ?w" by simp
  have b: "bins_of ?M = Inr ?bins"
    using bins_of_eq [OF w] by (simp only: Mw)
  have c: "classify col = Inr (?M, ?bins)"
    using assms(1) b by (simp add: classify_def)
  have "0 \<le> 999 div ?w" using w by (simp add: pos_imp_zdiv_nonneg_iff)
  then have n: "11 \<le> ?n" by simp
  have len: "length ?bins = ?n" by simp
  have nth: "?bins ! 10 = ?M" using n by simp
  have big: "length ?bins = 11" if "10000 \<le> ?M"
  proof -
    from that have "999 < ?w" by (rule width_big)
    then have "999 div ?w = 0" by (simp only: div_pos_pos_trivial)
    then show ?thesis by simp
  qed
  have shape: "?bins = map (\<lambda>k. int k * (?M div 10)) [0..<length ?bins]"
    by (simp only: div len)
  show ?thesis
    using c max_pop_density_bounds [of x] shape n nth big
    by (intro exI [of _ ?M] exI [of _ ?bins]) (simp only: div len, simp)
qed

theorem C2_bins_witness:
  "series_max [Fin 14000] = Fin 14000
   \<and> classify [Fin 14000]
       = Inr (15000, [0, 1500, 3000, 4500, 6000, 7500, 9000, 10500, 12000, 13500, 15000])
   \<and> series_max [Fin 100] = Fin 100
   \<and> (\<exists>bins. classify [Fin 100] = Inr (1000, bins)
         \<and> take 11 bins = [0, 100, 200, 300, 400, 500, 600, 700, 800, 900, 1000])"
proof -
  have m1: "series_max [Fin 14000] = Fin 14000" by (simp add: series_max_def)
  have m2: "series_max [Fin 100] = Fin 100" by (simp add: series_max_def)
  have u: "[0..<11] = [0, 1, 2, 3, 4, 5, 6, 7, 8, 9, 10]" by (simp add: upt_rec)
  from C2_bins [OF m1] obtain M bins where
    "classify [Fin 14000] = Inr (M, bins)" "M = 15000" "length bins = 11"
    "bins = map (\<lambda>k. int k * (M div 10)) [0..<length bins]"
    by auto
  then have a: "classify [Fin 14000]
       = Inr (15000, [0, 1500, 3000, 4500, 6000, 7500, 9000, 10500, 12000, 13500, 15000])"
    by (simp add: u)
  from C2_bins [OF m2] obtain M' bins' where
    c: "classify [Fin 100] = Inr (M', bins')" and M': "M' = 1000" and l: "11 \<le> length bins'"
    and s: "bins' = map (\<lambda>k. int k * (M' div 10)) [0..<length bins']"
    by auto
  have "take 11 bins' = take 11 (map (\<lambda>k. int k * (M' div 10)) [0..<length bins'])"
    using s by simp
  also have "\<dots> = map (\<lambda>k. int k * (M' div 10)) [0..<11]"
    using l by (simp add: take_map min_def del: upt_Suc)
  finally have "take 11 bins' = [0, 100, 200, 300, 400, 500, 600, 700, 800, 900, 1000]"
    by (simp add: M' u)
  with c M' have b: "\<exists>bins. classify [Fin 100] = Inr (1000, bins)
         \<and> take 11 bins = [0, 100, 200, 300, 400, 500, 600, 700, 800, 900, 1000]"
    by blast
  from m1 a m2 b show ?thesis by blast
qed

text \<open>
  C2 as stated fails twice. For the single unit of density 100 the rounded maximum is
  1000, but line 141 builds range(0, 2000, 100): twenty edges, nineteen bins of width 100
  reaching 1900, not ten. And a maximum of exactly 14000 is taken to 15000, not left at
  the nearest thousand 14000.
\<close>

theorem C2_counterexample:
  "classify [Fin 100]
     = Inr (1000, [0, 100, 200, 300, 400, 500, 600, 700, 800, 900, 1000,
                   1100, 1200, 1300, 1400, 1500, 1600, 1700, 1800, 1900])
   \<and> length [0, 100, 200, 300, 400, 500, 600, 700, 800, 900, 1000,
             1100, 1200, 1300, 1400, 1500, 1600, 1700, 1800, 1900 :: int] - 1 \<noteq> 10
   \<and> max_pop_density_of (Fin 14000) = Inr 15000"
  by (simp add: classify_def series_max_def bins_of_def py_range_def range_up.simps)

text \<open>
  C6 (as amended). For a mode whose four tables are readable: when every trip
  references a path that has at least one point in shapes.txt, the route layer holds
  one line feature per distinct path id of the trips (each referenced path has its
  line, and nothing else the mode adds holds a line); when some trip references a path
  without points, or has a blank path id, folium refuses the empty line, the mode is
  reported as failed and none of its lines is rendered, those of the paths that have
  points included.
\<close>

theorem C6_one_line_per_path:
  assumes "read_tables files = Inr (shapes, trips, routes, stops)"
  shows "((\<forall>t \<in> set trips. \<exists>p \<in> set shapes. Some (shape_id p) = trip_shape_id t) \<longrightarrow>
            (\<exists>lines rest.
               plot_gtfs folium_rejects ss files color label a
                 = a\<lparr>map_children := map_children a
                       @ Group \<lparr>fg_name = label @ '' Routes'', fg_show = True,
                                fg_children = lines\<rparr>
                         # map Group rest\<rparr>
               \<and> list_all is_line lines
               \<and> length lines = card (trip_shape_id ` set trips)
               \<and> (\<forall>t \<in> set trips.
                     \<exists>tip. PolyLine (coords_of shapes (trip_shape_id t)) color 2 (7 / 10) tip
                             \<in> set lines)
               \<and> list_all (\<lambda>g. list_all (\<lambda>f. \<not> is_line f) (fg_children g)) rest))
       \<and> ((\<exists>t \<in> set trips. \<forall>p \<in> set shapes. Some (shape_id p) \<noteq> trip_shape_id t) \<longrightarrow>
            plot_gtfs folium_rejects ss files color label a
              = a\<lparr>st_errors := st_errors a
                    @ [''Failed to load '' @ label @ '' data: '' @ ''Locations is empty.'']\<rparr>)"
proof (intro conjI impI)
  assume ok: "\<forall>t \<in> set trips. \<exists>p \<in> set shapes. Some (shape_id p) = trip_shape_id t"
  let ?lines = "map (line_of shapes color label) (first_rows {} (merge_trips_routes trips routes))"
  let ?rest = "if ss then [\<lparr>fg_name = label @ '' Stops'', fg_show = True,
                          fg_children = map (marker_of color label) stops\<rparr>] else []"
  have eq: "plot_gtfs folium_rejects ss files color label a
      = a\<lparr>map_children := map_children a
            @ Group \<lparr>fg_name = label @ '' Routes'', fg_show = True, fg_children = ?lines\<rparr>
              # map Group ?rest\<rparr>"
    by (simp add: plot_gtfs_def try_body_folium [OF assms ok])
  have l1: "list_all is_line ?lines" by (rule line_of_is_line)
  have l2: "length ?lines = card (trip_shape_id ` set trips)"
    by (simp add: length_first_rows merge_trips_routes_ids)
  have l3: "\<forall>t \<in> set trips.
      \<exists>tip. PolyLine (coords_of shapes (trip_shape_id t)) color 2 (7 / 10) tip \<in> set ?lines"
    by (intro ballI lines_cover) simp
  have l4: "list_all (\<lambda>g. list_all (\<lambda>f. \<not> is_line f) (fg_children g)) ?rest"
    by (simp add: marker_of_not_line)
  show "\<exists>lines rest.
          plot_gtfs folium_rejects ss files color label a
            = a\<lparr>map_children := map_children a
                  @ Group \<lparr>fg_name = label @ '' Routes'', fg_show = True, fg_children = lines\<rparr>
                    # map Group rest\<rparr>
          \<and> list_all is_line lines
          \<and> length lines = card (trip_shape_id ` set trips)
          \<and> (\<forall>t \<in> set trips.
                \<exists>tip. PolyLine (coords_of shapes (trip_shape_id t)) color 2 (7 / 10) tip
                        \<in> set lines)
          \<and> list_all (\<lambda>g. list_all (\<lambda>f. \<not> is_line f) (fg_children g)) rest"
    using eq l1 l2 l3 l4 by blast
next
  assume "\<exists>t \<in> set trips. \<forall>p \<in> set shapes. Some (shape_id p) \<noteq> trip_shape_id t"
  then obtain t where t: "t \<in> set trips"
    and none: "\<forall>p \<in> set shapes. Some (shape_id p) \<noteq> trip_shape_id t"
    by blast
  from t have "trip_shape_id t \<in> trip_shape_id ` set trips" by simp
  with assms show "plot_gtfs folium_rejects ss files color label a
      = a\<lparr>st_errors := st_errors a
            @ [''Failed to load '' @ label @ '' data: '' @ ''Locations is empty.'']\<rparr>"
    using none by (rule plot_gtfs_folium_missing)
qed

theorem C6_one_line_per_path_witness:
  "read_tables complete_folder = Inr ([\<lparr>shape_id = ''s1'', shape_pt_lat = 39, shape_pt_lon = - 76, shape_pt_sequence = 2\<rparr>,
             \<lparr>shape_id = ''s2'', shape_pt_lat = 40, shape_pt_lon = - 75, shape_pt_sequence = 1\<rparr>,
             \<lparr>shape_id = ''s1'', shape_pt_lat = 38, shape_pt_lon = - 77, shape_pt_sequence = 1\<rparr>], [\<lparr>trip_route_id = ''r1'', trip_shape_id = Some ''s1''\<rparr>,
             \<lparr>trip_route_id = ''r1'', trip_shape_id = Some ''s1''\<rparr>,
             \<lparr>trip_route_id = ''r2'', trip_shape_id = Some ''s2''\<rparr>], [\<lparr>route_id = ''r1'', route_short_name = Some ''M''\<rparr>], [\<lparr>stop_lat = 39, stop_lon = - 76, stop_name = ''Charles Center''\<rparr>])
   \<and> (\<exists>lines rest.
         plot_gtfs folium_rejects True complete_folder ''red'' ''Metro Subway'' empty_app
           = empty_app\<lparr>map_children := map_children empty_app
               @ Group \<lparr>fg_name = ''Metro Subway'' @ '' Routes'', fg_show = True,
                        fg_children = lines\<rparr> # map Group rest\<rparr>
         \<and> list_all is_line lines \<and> length lines = 2)
   \<and> read_tables sample_folder = Inr ([\<lparr>shape_id = ''s1'', shape_pt_lat = 39, shape_pt_lon = - 76, shape_pt_sequence = 2\<rparr>,
             \<lparr>shape_id = ''s1'', shape_pt_lat = 38, shape_pt_lon = - 77, shape_pt_sequence = 1\<rparr>], [\<lparr>trip_route_id = ''r1'', trip_shape_id = Some ''s1''\<rparr>,
             \<lparr>trip_route_id = ''r1'', trip_shape_id = Some ''s1''\<rparr>,
             \<lparr>trip_route_id = ''r2'', trip_shape_id = Some ''s2''\<rparr>], [\<lparr>route_id = ''r1'', route_short_name = Some ''M''\<rparr>], [\<lparr>stop_lat = 39, stop_lon = - 76, stop_name = ''Charles Center''\<rparr>])
   \<and> plot_gtfs folium_rejects True sample_folder ''red'' ''Metro Subway'' empty_app
       = empty_app\<lparr>st_errors := st_errors empty_app
           @ [''Failed to load '' @ ''Metro Subway'' @ '' data: '' @ ''Locations is empty.'']\<rparr>"
proof -
  have h1: "read_tables complete_folder = Inr ([\<lparr>shape_id = ''s1'', shape_pt_lat = 39, shape_pt_lon = - 76, shape_pt_sequence = 2\<rparr>,
             \<lparr>shape_id = ''s2'', shape_pt_lat = 40, shape_pt_lon = - 75, shape_pt_sequence = 1\<rparr>,
             \<lparr>shape_id = ''s1'', shape_pt_lat = 38, shape_pt_lon = - 77, shape_pt_sequence = 1\<rparr>], [\<lparr>trip_route_id = ''r1'', trip_shape_id = Some ''s1''\<rparr>,
             \<lparr>trip_route_id = ''r1'', trip_shape_id = Some ''s1''\<rparr>,
             \<lparr>trip_route_id = ''r2'', trip_shape_id = Some ''s2''\<rparr>], [\<lparr>route_id = ''r1'', route_short_name = Some ''M''\<rparr>], [\<lparr>stop_lat = 39, stop_lon = - 76, stop_name = ''Charles Center''\<rparr>])"
    by (simp add: read_tables_def complete_folder_def)
  have h2: "\<forall>t \<in> set [\<lparr>trip_route_id = ''r1'', trip_shape_id = Some ''s1''\<rparr>,
             \<lparr>trip_route_id = ''r1'', trip_shape_id = Some ''s1''\<rparr>,
             \<lparr>trip_route_id = ''r2'', trip_shape_id = Some ''s2''\<rparr>]. \<exists>p \<in> set [\<lparr>shape_id = ''s1'', shape_pt_lat = 39, shape_pt_lon = - 76, shape_pt_sequence = 2\<rparr>,
             \<lparr>shape_id = ''s2'', shape_pt_lat = 40, shape_pt_lon = - 75, shape_pt_sequence = 1\<rparr>,
             \<lparr>shape_id = ''s1'', shape_pt_lat = 38, shape_pt_lon = - 77, shape_pt_sequence = 1\<rparr>]. Some (shape_id p) = trip_shape_id t"
    by simp
  have c: "card (trip_shape_id ` set [\<lparr>trip_route_id = ''r1'', trip_shape_id = Some ''s1''\<rparr>,
             \<lparr>trip_route_id = ''r1'', trip_shape_id = Some ''s1''\<rparr>,
             \<lparr>trip_route_id = ''r2'', trip_shape_id = Some ''s2''\<rparr>]) = 2" by simp
  have a: "\<exists>lines rest.
         plot_gtfs folium_rejects True complete_folder ''red'' ''Metro Subway'' empty_app
           = empty_app\<lparr>map_children := map_children empty_app
               @ Group \<lparr>fg_name = ''Metro Subway'' @ '' Routes'', fg_show = True,
                        fg_children = lines\<rparr> # map Group rest\<rparr>
         \<and> list_all is_line lines \<and> length lines = 2"
    using C6_one_line_per_path [OF h1, of True "''red''" "''Metro Subway''" empty_app] h2
    unfolding c by blast
  have g1: "read_tables sample_folder = Inr ([\<lparr>shape_id = ''s1'', shape_pt_lat = 39, shape_pt_lon = - 76, shape_pt_sequence = 2\<rparr>,
             \<lparr>shape_id = ''s1'', shape_pt_lat = 38, shape_pt_lon = - 77, shape_pt_sequence = 1\<rparr>], [\<lparr>trip_route_id = ''r1'', trip_shape_id = Some ''s1''\<rparr>,
             \<lparr>trip_route_id = ''r1'', trip_shape_id = Some ''s1''\<rparr>,
             \<lparr>trip_route_id = ''r2'', trip_shape_id = Some ''s2''\<rparr>], [\<lparr>route_id = ''r1'', route_short_name = Some ''M''\<rparr>], [\<lparr>stop_lat = 39, stop_lon = - 76, stop_name = ''Charles Center''\<rparr>])"
    by (simp add: read_tables_def sample_folder_def)
  have g2: "\<exists>t \<in> set [\<lparr>trip_route_id = ''r1'', trip_shape_id = Some ''s1''\<rparr>,
             \<lparr>trip_route_id = ''r1'', trip_shape_id = Some ''s1''\<rparr>,
             \<lparr>trip_route_id = ''r2'', trip_shape_id = Some ''s2''\<rparr>]. \<forall>p \<in> set [\<lparr>shape_id = ''s1'', shape_pt_lat = 39, shape_pt_lon = - 76, shape_pt_sequence = 2\<rparr>,
             \<lparr>shape_id = ''s1'', shape_pt_lat = 38, shape_pt_lon = - 77, shape_pt_sequence = 1\<rparr>]. Some (shape_id p) \<noteq> trip_shape_id t"
    by simp
  have b: "plot_gtfs folium_rejects True sample_folder ''red'' ''Metro Subway'' empty_app
       = empty_app\<lparr>st_errors := st_errors empty_app
           @ [''Failed to load '' @ ''Metro Subway'' @ '' data: '' @ ''Locations is empty.'']\<rparr>"
    using C6_one_line_per_path [OF g1, of True "''red''" "''Metro Subway''" empty_app] g2
    by blast
  from h1 a g1 b show ?thesis by blast
qed

text \<open>
  C6 as stated fails: in the sample folder the trips reference two distinct paths, s1
  with two points and s2 with none. The claim allows at most the line of s2 to be
  missing; the mode renders no line at all and is reported as failed.
\<close>

theorem C6_counterexample:
  "read_tables sample_folder = Inr ([\<lparr>shape_id = ''s1'', shape_pt_lat = 39, shape_pt_lon = - 76, shape_pt_sequence = 2\<rparr>,
             \<lparr>shape_id = ''s1'', shape_pt_lat = 38, shape_pt_lon = - 77, shape_pt_sequence = 1\<rparr>], [\<lparr>trip_route_id = ''r1'', trip_shape_id = Some ''s1''\<rparr>,
             \<lparr>trip_route_id = ''r1'', trip_shape_id = Some ''s1''\<rparr>,
             \<lparr>trip_route_id = ''r2'', trip_shape_id = Some ''s2''\<rparr>], [\<lparr>route_id = ''r1'', route_short_name = Some ''M''\<rparr>], [\<lparr>stop_lat = 39, stop_lon = - 76, stop_name = ''Charles Center''\<rparr>])
   \<and> card (trip_shape_id ` set [\<lparr>trip_route_id = ''r1'', trip_shape_id = Some ''s1''\<rparr>,
             \<lparr>trip_route_id = ''r1'', trip_shape_id = Some ''s1''\<rparr>,
             \<lparr>trip_route_id = ''r2'', trip_shape_id = Some ''s2''\<rparr>]) = 2
   \<and> coords_of [\<lparr>shape_id = ''s1'', shape_pt_lat = 39, shape_pt_lon = - 76, shape_pt_sequence = 2\<rparr>,
             \<lparr>shape_id = ''s1'', shape_pt_lat = 38, shape_pt_lon = - 77, shape_pt_sequence = 1\<rparr>] (Some ''s1'') = [(38, - 77), (39, - 76)]
   \<and> coords_of [\<lparr>shape_id = ''s1'', shape_pt_lat = 39, shape_pt_lon = - 76, shape_pt_sequence = 2\<rparr>,
             \<lparr>shape_id = ''s1'', shape_pt_lat = 38, shape_pt_lon = - 77, shape_pt_sequence = 1\<rparr>] (Some ''s2'') = []
   \<and> plot_gtfs folium_rejects True sample_folder ''red'' ''Metro Subway'' empty_app
       = \<lparr>map_children = [],
          st_errors = [''Failed to load Metro Subway data: Locations is empty.'']\<rparr>"
  by (simp add: read_tables_def sample_folder_def coords_of_def plot_gtfs_def try_body_def
      merge_trips_routes_def folium_rejects_Nil folium_rejects_nonempty empty_app_def)



text \<open>
  C10 (as amended). For a mode whose four tables are readable and a path id that its
  trips reference without any row in shapes.txt (a blank path id included): the path is
  not skipped, its list of locations is empty, folium refuses it, and \<^verbatim>\<open>plot_gtfs\<close>
  reports "Failed to load <mode> data: Locations is empty." and adds nothing of the mode
  to the map: no line feature for that path or for any other.
\<close>

theorem C10_missing_geometry_drops_mode:
  assumes "read_tables files = Inr (shapes, trips, routes, stops)"
    and "sid \<in> trip_shape_id ` set trips"
    and "\<forall>p \<in> set shapes. Some (shape_id p) \<noteq> sid"
  shows "coords_of shapes sid = []
       \<and> plot_gtfs folium_rejects ss files color label a
           = a\<lparr>st_errors := st_errors a
                 @ [''Failed to load '' @ label @ '' data: '' @ ''Locations is empty.'']\<rparr>
       \<and> map_children (plot_gtfs folium_rejects ss files color label a) = map_children a"
proof -
  have e: "coords_of shapes sid = []"
    using assms(3) by (simp add: coords_of_empty_iff)
  have p: "plot_gtfs folium_rejects ss files color label a
      = a\<lparr>st_errors := st_errors a
            @ [''Failed to load '' @ label @ '' data: '' @ ''Locations is empty.'']\<rparr>"
    using assms by (rule plot_gtfs_folium_missing)
  then have "map_children (plot_gtfs folium_rejects ss files color label a) = map_children a"
    by simp
  with e p show ?thesis by blast
qed

theorem C10_missing_geometry_drops_mode_witness:
  "read_tables sample_folder = Inr ([\<lparr>shape_id = ''s1'', shape_pt_lat = 39, shape_pt_lon = - 76, shape_pt_sequence = 2\<rparr>,
             \<lparr>shape_id = ''s1'', shape_pt_lat = 38, shape_pt_lon = - 77, shape_pt_sequence = 1\<rparr>], [\<lparr>trip_route_id = ''r1'', trip_shape_id = Some ''s1''\<rparr>,
             \<lparr>trip_route_id = ''r1'', trip_shape_id = Some ''s1''\<rparr>,
             \<lparr>trip_route_id = ''r2'', trip_shape_id = Some ''s2''\<rparr>], [\<lparr>route_id = ''r1'', route_short_name = Some ''M''\<rparr>], [\<lparr>stop_lat = 39, stop_lon = - 76, stop_name = ''Charles Center''\<rparr>])
   \<and> coords_of [\<lparr>shape_id = ''s1'', shape_pt_lat = 39, shape_pt_lon = - 76, shape_pt_sequence = 2\<rparr>,
             \<lparr>shape_id = ''s1'', shape_pt_lat = 38, shape_pt_lon = - 77, shape_pt_sequence = 1\<rparr>] (Some ''s2'') = []
   \<and> plot_gtfs folium_rejects False sample_folder ''red'' ''Metro Subway'' empty_app
       = empty_app\<lparr>st_errors := st_errors empty_app
           @ [''Failed to load '' @ ''Metro Subway'' @ '' data: '' @ ''Locations is empty.'']\<rparr>
   \<and> map_children (plot_gtfs folium_rejects False sample_folder ''red'' ''Metro Subway''
                      empty_app) = map_children empty_app"
proof -
  have g1: "read_tables sample_folder = Inr ([\<lparr>shape_id = ''s1'', shape_pt_lat = 39, shape_pt_lon = - 76, shape_pt_sequence = 2\<rparr>,
             \<lparr>shape_id = ''s1'', shape_pt_lat = 38, shape_pt_lon = - 77, shape_pt_sequence = 1\<rparr>], [\<lparr>trip_route_id = ''r1'', trip_shape_id = Some ''s1''\<rparr>,
             \<lparr>trip_route_id = ''r1'', trip_shape_id = Some ''s1''\<rparr>,
             \<lparr>trip_route_id = ''r2'', trip_shape_id = Some ''s2''\<rparr>], [\<lparr>route_id = ''r1'', route_short_name = Some ''M''\<rparr>], [\<lparr>stop_lat = 39, stop_lon = - 76, stop_name = ''Charles Center''\<rparr>])"
    by (simp add: read_tables_def sample_folder_def)
  have g2: "Some ''s2'' \<in> trip_shape_id ` set [\<lparr>trip_route_id = ''r1'', trip_shape_id = Some ''s1''\<rparr>,
             \<lparr>trip_route_id = ''r1'', trip_shape_id = Some ''s1''\<rparr>,
             \<lparr>trip_route_id = ''r2'', trip_shape_id = Some ''s2''\<rparr>]" by simp
  have g3: "\<forall>p \<in> set [\<lparr>shape_id = ''s1'', shape_pt_lat = 39, shape_pt_lon = - 76, shape_pt_sequence = 2\<rparr>,
             \<lparr>shape_id = ''s1'', shape_pt_lat = 38, shape_pt_lon = - 77, shape_pt_sequence = 1\<rparr>]. Some (shape_id p) \<noteq> Some ''s2''" by simp
  from C10_missing_geometry_drops_mode [OF g1 g2 g3, of False "''red''" "''Metro Subway''" empty_app]
    g1 show ?thesis by blast
qed

text \<open>
  C10 as stated fails: in the sample folder the trips reference the path s2, which has
  no row in shapes.txt. No line feature with an empty list of locations is emitted for
  it; an error is reported and the map gets nothing of the mode.
\<close>

theorem C10_counterexample:
  "coords_of [\<lparr>shape_id = ''s1'', shape_pt_lat = 39, shape_pt_lon = - 76, shape_pt_sequence = 2\<rparr>,
             \<lparr>shape_id = ''s1'', shape_pt_lat = 38, shape_pt_lon = - 77, shape_pt_sequence = 1\<rparr>] (Some ''s2'') = []
   \<and> plot_gtfs folium_rejects False sample_folder ''red'' ''Metro Subway'' empty_app
       = \<lparr>map_children = [],
          st_errors = [''Failed to load Metro Subway data: Locations is empty.'']\<rparr>"
  by (simp add: read_tables_def sample_folder_def coords_of_def plot_gtfs_def try_body_def
      merge_trips_routes_def folium_rejects_Nil folium_rejects_nonempty empty_app_def)

text \<open>
  C8. With the reprojection of line 131 taken as the spherical Mercator projection
  EPSG:3857 and the area as the planar area of the projected rings, the area of a
  geometry does not change when the geometry is moved in longitude, and neither does
  the \<^verbatim>\<open>area_km2\<close> that line 131 stores for its row: the area is taken from the projected
  coordinates, in which such a move is a translation.
\<close>

theorem C8_area_invariant_in_longitude:
  "area_3857 (shift_geometry d g) = area_3857 g
   \<and> area_km2 (add_density area_3857 (u\<lparr>geometry := shift_geometry d (geometry u)\<rparr>))
       = area_km2 (add_density area_3857 u)"
  by (simp add: area_3857_shift add_density_fields)

theorem C8_area_invariant_in_longitude_witness:
  "area_3857 [([(- 76, 39), (- 759 / 10, 39), (- 759 / 10, 391 / 10), (- 76, 391 / 10),
                (- 76, 39)], [])]
   = area_3857 [([(- 77, 39), (- 769 / 10, 39), (- 769 / 10, 391 / 10), (- 77, 391 / 10),
                  (- 77, 39)], [])]"
proof -
  have "shift_geometry 1 [([(- 77, 39), (- 769 / 10, 39), (- 769 / 10, 391 / 10),
                            (- 77, 391 / 10), (- 77, 39)], [])]
      = [([(- 76, 39), (- 759 / 10, 39), (- 759 / 10, 391 / 10), (- 76, 391 / 10),
           (- 76, 39)], [])]"
    by (simp add: shift_geometry_def shift_polygon_def shift_lon_def)
  with C8_area_invariant_in_longitude [of 1 "[([(- 77, 39), (- 769 / 10, 39),
      (- 769 / 10, 391 / 10), (- 77, 391 / 10), (- 77, 39)], [])]"]
  show ?thesis by simp
qed

text \<open>
  C7. When one of the four tables of a selected mode is missing or unreadable,
  \<^verbatim>\<open>plot_gtfs\<close> adds nothing of that mode to the map and reports one message that
  carries the mode's name; the loop over the selected modes goes on, and the map and the
  other messages are what they would be had the mode not been selected.
\<close>

theorem C7_mode_failure_isolated:
  assumes "isl (shapes_txt (fs (mode_folder md))) \<or> isl (trips_txt (fs (mode_folder md)))
           \<or> isl (routes_txt (fs (mode_folder md))) \<or> isl (stops_txt (fs (mode_folder md)))"
  shows "\<exists>e pre post.
           plot_gtfs rejects ss (fs (mode_folder md)) (mode_color md) (mode_label md) a
             = a\<lparr>st_errors := st_errors a
                   @ [''Failed to load '' @ mode_label md @ '' data: '' @ e]\<rparr>
           \<and> map_children (plot_modes rejects ss fs (ms1 @ md # ms2) a)
               = map_children (plot_modes rejects ss fs (ms1 @ ms2) a)
           \<and> st_errors (plot_modes rejects ss fs (ms1 @ md # ms2) a)
               = pre @ [''Failed to load '' @ mode_label md @ '' data: '' @ e] @ post
           \<and> st_errors (plot_modes rejects ss fs (ms1 @ ms2) a) = pre @ post"
proof -
  let ?x = "plot_modes rejects ss fs ms1 a"
  from try_body_unreadable [OF assms] obtain e where
    e: "try_body rejects ss (fs (mode_folder md)) (mode_color md) (mode_label md) = Inl e"
    by blast
  let ?msg = "''Failed to load '' @ mode_label md @ '' data: '' @ e"
  have one: "plot_gtfs rejects ss (fs (mode_folder md)) (mode_color md) (mode_label md) b
      = b\<lparr>st_errors := st_errors b @ [?msg]\<rparr>" for b :: "'a app"
    by (simp add: plot_gtfs_def e)
  from plot_modes_frame [where 'g = 'a] obtain ls es where
    rest: "\<And>b::'a app. plot_modes rejects ss fs ms2 b
       = b\<lparr>map_children := map_children b @ ls, st_errors := st_errors b @ es\<rparr>"
    by blast
  have with_md: "plot_modes rejects ss fs (ms1 @ md # ms2) a
      = plot_modes rejects ss fs ms2 (?x\<lparr>st_errors := st_errors ?x @ [?msg]\<rparr>)"
    by (simp add: plot_modes_append one)
  have without: "plot_modes rejects ss fs (ms1 @ ms2) a = plot_modes rejects ss fs ms2 ?x"
    by (simp add: plot_modes_append)
  show ?thesis
  proof (intro exI conjI)
    show "plot_gtfs rejects ss (fs (mode_folder md)) (mode_color md) (mode_label md) a
        = a\<lparr>st_errors := st_errors a @ [?msg]\<rparr>"
      by (rule one)
    show "map_children (plot_modes rejects ss fs (ms1 @ md # ms2) a)
        = map_children (plot_modes rejects ss fs (ms1 @ ms2) a)"
      by (simp add: with_md without rest)
    show "st_errors (plot_modes rejects ss fs (ms1 @ md # ms2) a)
        = st_errors ?x @ [?msg] @ es"
      by (simp add: with_md rest)
    show "st_errors (plot_modes rejects ss fs (ms1 @ ms2) a) = st_errors ?x @ es"
      by (simp add: without rest)
  qed
qed

theorem C7_mode_failure_isolated_witness:
  "isl (shapes_txt (sample_disk (mode_folder MetroSubway)))
   \<and> (\<exists>e pre post.
         plot_gtfs (\<lambda>locs. None) True (sample_disk (mode_folder MetroSubway))
             (mode_color MetroSubway) (mode_label MetroSubway) empty_app
           = empty_app\<lparr>st_errors := st_errors empty_app
               @ [''Failed to load '' @ mode_label MetroSubway @ '' data: '' @ e]\<rparr>
         \<and> map_children (plot_modes (\<lambda>locs. None) True sample_disk
                            ([LocalBus] @ MetroSubway # [LightRail]) empty_app)
             = map_children (plot_modes (\<lambda>locs. None) True sample_disk
                            ([LocalBus] @ [LightRail]) empty_app)
         \<and> st_errors (plot_modes (\<lambda>locs. None) True sample_disk
                            ([LocalBus] @ MetroSubway # [LightRail]) empty_app)
             = pre @ [''Failed to load '' @ mode_label MetroSubway @ '' data: '' @ e] @ post
         \<and> st_errors (plot_modes (\<lambda>locs. None) True sample_disk
                            ([LocalBus] @ [LightRail]) empty_app) = pre @ post)
   \<and> st_errors (plot_modes (\<lambda>locs. None) True sample_disk
                  [LocalBus, MetroSubway, LightRail] empty_app)
       = [''Failed to load Metro Subway data: No such file or directory: shapes.txt'']"
proof -
  have h: "isl (shapes_txt (sample_disk (mode_folder MetroSubway)))"
    by (simp add: sample_disk_def broken_folder_def)
  then have h': "isl (shapes_txt (sample_disk (mode_folder MetroSubway)))
           \<or> isl (trips_txt (sample_disk (mode_folder MetroSubway)))
           \<or> isl (routes_txt (sample_disk (mode_folder MetroSubway)))
           \<or> isl (stops_txt (sample_disk (mode_folder MetroSubway)))"
    by (rule disjI1)
  have ev: "st_errors (plot_modes (\<lambda>locs. None) True sample_disk
                  [LocalBus, MetroSubway, LightRail] empty_app)
       = [''Failed to load Metro Subway data: No such file or directory: shapes.txt'']"
    by (simp add: plot_gtfs_def try_body_def read_tables_def sample_disk_def sample_folder_def
        broken_folder_def empty_app_def merge_trips_routes_def)
  from C7_mode_failure_isolated [where fs = sample_disk and md = MetroSubway
      and rejects = "\<lambda>locs. None" and ss = True and a = empty_app
      and ?ms1.0 = "[LocalBus]" and ?ms2.0 = "[LightRail]", OF h']
    h ev show ?thesis by blast
qed

lemma MappingApp_merged_None:
  "population_df inp = None \<or> shapes_gdf inp = None \<Longrightarrow> MappingApp area rejects inp = Inl TypeError"
  by (auto simp: MappingApp_def merged_of_def split: option.splits)

lemma MappingApp_no_rows:
  "population_df inp = Some pops \<Longrightarrow> shapes_gdf inp = Some [] \<Longrightarrow>
   MappingApp area rejects inp = Inl ValueError"
  by (simp add: MappingApp_def merged_of_def merge_left_def classify_def series_max_def)

text \<open>
  C4 (the script departs from the claim). Line 140 reads \<^verbatim>\<open>merged["pop_density"]\<close>
  before the guard of line 148: with the population dataset missing, the block-group
  shapes loaded and the four tables of the selected mode readable, the script stops with
  a TypeError; no transit layer is built and no map is composed.
\<close>

theorem C4_missing_population_raises:
  "MappingApp real (\<lambda>locs. None)
     \<lparr>selected_modes = [LocalBus], show_stops = True, show_population = True,
      population_df = None,
      shapes_gdf = Some [\<lparr>shape_GEOID = StrCell ''240010001001'', shape_geometry = 1000000\<rparr>],
      gtfs_files = sample_disk\<rparr>
   = Inl TypeError"
  by (simp add: MappingApp_def merged_of_def)

end
